theory Spec2Isabelle
  imports Main "HOL-Library.Word" "HOL-Library.AList" "HOL-Library.Sublist"
begin

unbundle bit_operations_syntax

section \<open>Identifier hashing\<close>

text \<open>
  Go strings are byte sequences; they are modelled as \<open>string\<close> (a list of 8-bit
  characters). The digest and the base32 encoder operate on bytes.
\<close>

type_synonym byte = "8 word"
type_synonym u32 = "32 word"

definition bytes_of_string :: "string \<Rightarrow> byte list" where
  "bytes_of_string s = map of_char s"

subsection \<open>crypto/sha256 (standard library, FIPS 180-4)\<close>

definition rotr :: "nat \<Rightarrow> u32 \<Rightarrow> u32" where
  "rotr n w = (drop_bit n w) OR (push_bit (32 - n) w)"

definition Ch :: "u32 \<Rightarrow> u32 \<Rightarrow> u32 \<Rightarrow> u32" where
  "Ch x y z = (x AND y) XOR ((NOT x) AND z)"

definition Maj :: "u32 \<Rightarrow> u32 \<Rightarrow> u32 \<Rightarrow> u32" where
  "Maj x y z = (x AND y) XOR (x AND z) XOR (y AND z)"

definition bsig0 :: "u32 \<Rightarrow> u32" where
  "bsig0 x = rotr 2 x XOR rotr 13 x XOR rotr 22 x"

definition bsig1 :: "u32 \<Rightarrow> u32" where
  "bsig1 x = rotr 6 x XOR rotr 11 x XOR rotr 25 x"

definition ssig0 :: "u32 \<Rightarrow> u32" where
  "ssig0 x = rotr 7 x XOR rotr 18 x XOR drop_bit 3 x"

definition ssig1 :: "u32 \<Rightarrow> u32" where
  "ssig1 x = rotr 17 x XOR rotr 19 x XOR drop_bit 10 x"

definition sha256_K :: "u32 list" where
  "sha256_K =
   [0x428A2F98, 0x71374491, 0xB5C0FBCF, 0xE9B5DBA5, 0x3956C25B, 0x59F111F1, 0x923F82A4, 0xAB1C5ED5,
    0xD807AA98, 0x12835B01, 0x243185BE, 0x550C7DC3, 0x72BE5D74, 0x80DEB1FE, 0x9BDC06A7, 0xC19BF174,
    0xE49B69C1, 0xEFBE4786, 0x0FC19DC6, 0x240CA1CC, 0x2DE92C6F, 0x4A7484AA, 0x5CB0A9DC, 0x76F988DA,
    0x983E5152, 0xA831C66D, 0xB00327C8, 0xBF597FC7, 0xC6E00BF3, 0xD5A79147, 0x06CA6351, 0x14292967,
    0x27B70A85, 0x2E1B2138, 0x4D2C6DFC, 0x53380D13, 0x650A7354, 0x766A0ABB, 0x81C2C92E, 0x92722C85,
    0xA2BFE8A1, 0xA81A664B, 0xC24B8B70, 0xC76C51A3, 0xD192E819, 0xD6990624, 0xF40E3585, 0x106AA070,
    0x19A4C116, 0x1E376C08, 0x2748774C, 0x34B0BCB5, 0x391C0CB3, 0x4ED8AA4A, 0x5B9CCA4F, 0x682E6FF3,
    0x748F82EE, 0x78A5636F, 0x84C87814, 0x8CC70208, 0x90BEFFFA, 0xA4506CEB, 0xBEF9A3F7, 0xC67178F2]"

type_synonym sha_state = "u32 \<times> u32 \<times> u32 \<times> u32 \<times> u32 \<times> u32 \<times> u32 \<times> u32"

definition sha256_init :: sha_state where
  "sha256_init =
   (0x6A09E667, 0xBB67AE85, 0x3C6EF372, 0xA54FF53A, 0x510E527F, 0x9B05688C, 0x1F83D9AB, 0x5BE0CD19)"

definition be32 :: "byte list \<Rightarrow> u32" where
  "be32 bs = foldl (\<lambda>acc b. push_bit 8 acc OR ucast b) 0 bs"

definition be_bytes :: "u32 \<Rightarrow> byte list" where
  "be_bytes w = [ucast (drop_bit 24 w), ucast (drop_bit 16 w), ucast (drop_bit 8 w), ucast w]"

fun be_words :: "byte list \<Rightarrow> u32 list" where
  "be_words (a # b # c # d # rest) = be32 [a, b, c, d] # be_words rest"
| "be_words _ = []"

fun extend_schedule :: "nat \<Rightarrow> u32 list \<Rightarrow> u32 list" where
  "extend_schedule 0 w = w"
| "extend_schedule (Suc n) w =
     (let t = length w in
      extend_schedule n
        (w @ [ssig1 (w ! (t - 2)) + w ! (t - 7) + ssig0 (w ! (t - 15)) + w ! (t - 16)]))"

definition sha_round :: "sha_state \<Rightarrow> u32 \<times> u32 \<Rightarrow> sha_state" where
  "sha_round s kw =
     (case s of (a, b, c, d, e, f, g, h) \<Rightarrow>
        let t1 = h + bsig1 e + Ch e f g + fst kw + snd kw;
            t2 = bsig0 a + Maj a b c
        in (t1 + t2, a, b, c, d + t1, e, f, g))"

definition sha_add :: "sha_state \<Rightarrow> sha_state \<Rightarrow> sha_state" where
  "sha_add s t =
     (case s of (a, b, c, d, e, f, g, h) \<Rightarrow>
      case t of (a', b', c', d', e', f', g', h') \<Rightarrow>
        (a + a', b + b', c + c', d + d', e + e', f + f', g + g', h + h'))"

definition sha_block :: "sha_state \<Rightarrow> byte list \<Rightarrow> sha_state" where
  "sha_block s blk =
     sha_add s (foldl sha_round s (zip sha256_K (extend_schedule 48 (be_words blk))))"

definition sha_pad :: "byte list \<Rightarrow> byte list" where
  "sha_pad m =
     (let n = length m;
          z = (119 - n mod 64) mod 64;
          bits = (word_of_nat (8 * n) :: 64 word)
      in m @ [0x80] @ replicate z 0 @
         map (\<lambda>i. ucast (drop_bit (8 * (7 - i)) bits)) [0..<8])"

fun sha_blocks :: "nat \<Rightarrow> sha_state \<Rightarrow> byte list \<Rightarrow> sha_state" where
  "sha_blocks 0 s m = s"
| "sha_blocks (Suc k) s m = sha_blocks k (sha_block s (take 64 m)) (drop 64 m)"

fun digest_bytes :: "sha_state \<Rightarrow> byte list" where
  "digest_bytes (a, b, c, d, e, f, g, h) = concat (map be_bytes [a, b, c, d, e, f, g, h])"

definition sha256_Sum :: "byte list \<Rightarrow> byte list" where
  "sha256_Sum m =
     (let p = sha_pad m in digest_bytes (sha_blocks (length p div 64) sha256_init p))"

subsection \<open>encoding/base32 (standard library), without padding\<close>

definition quantum :: "byte \<Rightarrow> byte \<Rightarrow> byte \<Rightarrow> byte \<Rightarrow> byte \<Rightarrow> byte list" where
  "quantum s0 s1 s2 s3 s4 =
     [drop_bit 3 s0,
      (push_bit 2 s0 AND 0x1F) OR (drop_bit 6 s1 AND 0x1F),
      drop_bit 1 s1 AND 0x1F,
      (push_bit 4 s1 AND 0x1F) OR (drop_bit 4 s2 AND 0x1F),
      (push_bit 1 s2 AND 0x1F) OR drop_bit 7 s3,
      drop_bit 2 s3 AND 0x1F,
      (push_bit 3 s3 AND 0x1F) OR drop_bit 5 s4,
      s4 AND 0x1F]"

definition encode_symbols :: "string \<Rightarrow> byte list \<Rightarrow> string" where
  "encode_symbols alphabet bs = map (\<lambda>b. alphabet ! unat (b AND 31)) bs"

fun EncodeToString :: "string \<Rightarrow> byte list \<Rightarrow> string" where
  "EncodeToString alphabet (s0 # s1 # s2 # s3 # s4 # rest) =
     encode_symbols alphabet (quantum s0 s1 s2 s3 s4) @ EncodeToString alphabet rest"
| "EncodeToString alphabet [s0, s1, s2, s3] =
     take 7 (encode_symbols alphabet (quantum s0 s1 s2 s3 0))"
| "EncodeToString alphabet [s0, s1, s2] =
     take 5 (encode_symbols alphabet (quantum s0 s1 s2 0 0))"
| "EncodeToString alphabet [s0, s1] =
     take 4 (encode_symbols alphabet (quantum s0 s1 0 0 0))"
| "EncodeToString alphabet [s0] =
     take 2 (encode_symbols alphabet (quantum s0 0 0 0 0))"
| "EncodeToString alphabet [] = []"

subsection \<open>The repository's hasher\<close>

definition oneWayNameEncoding :: string where
  "oneWayNameEncoding = ''bcdfghijklmnpqrstvwxyz0123456789''"

text \<open>
  \<open>namespaceSafeHash\<close> writes every input string to the running hash in order; the
  running hash is the buffer of bytes written so far, and \<open>Sum\<close> digests it.
\<close>

definition hash_Write :: "byte list \<Rightarrow> string \<Rightarrow> byte list" where
  "hash_Write buf s = buf @ bytes_of_string s"

definition namespaceSafeHash :: "string list \<Rightarrow> string" where
  "namespaceSafeHash values' =
     EncodeToString oneWayNameEncoding (take 4 (sha256_Sum (foldl hash_Write [] values')))"

section \<open>Data model\<close>

text \<open>
  The Kubernetes and Prow API types are declared outside the two source files; the
  records below carry the fields that the source reads or writes.
\<close>

record EnvVar =
  env_Name :: string
  env_Value :: string

record Container =
  c_Name :: string
  c_Args :: "string list"
  c_Env :: "EnvVar list"

record PodSpec =
  Containers :: "Container list"

record ProwJobSpec =
  spec_Type :: string
  spec_Job :: string
  spec_PodSpec :: "PodSpec option"

record ObjectMeta =
  meta_Name :: string
  meta_Namespace :: string
  Annotations :: "(string \<times> string) list"
  Labels :: "(string \<times> string) list"

record ProwJobStatus =
  status_State :: string
  status_URL :: string

record ProwJob =
  pj_APIVersion :: string
  pj_Kind :: string
  pj_ObjectMeta :: ObjectMeta
  pj_Spec :: ProwJobSpec
  pj_Status :: ProwJobStatus

record ContainerStatus =
  cs_Name :: string
  cs_Terminated :: "32 word option"

record Pod =
  Phase :: string
  ContainerStatuses :: "ContainerStatus list"

text \<open>The provisioning request (\<open>Job\<close> in the source).\<close>

record Job =
  Name :: string
  JobName :: string
  Mode :: string
  RequestedBy :: string
  RequestedChannel :: string
  InstallImage :: string
  UpgradeImage :: string
  InstallVersion :: string
  UpgradeVersion :: string
  URL :: string
  Credentials :: string
  PasswordSnippet :: string

subsection \<open>Errors\<close>

text \<open>
  \<open>api_error\<close> is what a remote call can answer: a status error with its reason and
  message. \<open>error\<close> is Go's \<open>error\<close> as \<open>launchJob\<close> sees it: the poller's
  sentinel \<open>wait.ErrWaitTimeout\<close>, a remote error, or an error built with
  \<open>fmt.Errorf\<close>. \<open>Panic\<close> stands for a run-time panic leaving the function.
\<close>

datatype api_error = NotFound string | Forbidden string | AlreadyExists string | Failure string

datatype error = ErrWaitTimeout | Api api_error | Errorf string | Panic string

fun api_message :: "api_error \<Rightarrow> string" where
  "api_message (NotFound m) = m"
| "api_message (Forbidden m) = m"
| "api_message (AlreadyExists m) = m"
| "api_message (Failure m) = m"

fun Error :: "error \<Rightarrow> string" where
  "Error ErrWaitTimeout = ''timed out waiting for the condition''"
| "Error (Api e) = api_message e"
| "Error (Errorf m) = m"
| "Error (Panic m) = m"

fun IsNotFound :: "api_error \<Rightarrow> bool" where
  "IsNotFound (NotFound _) = True"
| "IsNotFound _ = False"

fun IsForbidden :: "api_error \<Rightarrow> bool" where
  "IsForbidden (Forbidden _) = True"
| "IsForbidden _ = False"

fun IsAlreadyExists :: "api_error \<Rightarrow> bool" where
  "IsAlreadyExists (AlreadyExists _) = True"
| "IsAlreadyExists _ = False"

subsection \<open>Strings\<close>

definition HasPrefix :: "string \<Rightarrow> string \<Rightarrow> bool" where
  "HasPrefix s p = (take (length p) s = p)"

definition TrimPrefix :: "string \<Rightarrow> string \<Rightarrow> string" where
  "TrimPrefix s p = (if HasPrefix s p then drop (length p) s else s)"

fun Contains :: "string \<Rightarrow> string \<Rightarrow> bool" where
  "Contains [] sub = (sub = [])"
| "Contains (c # cs) sub = (HasPrefix (c # cs) sub \<or> Contains cs sub)"

fun splitLines :: "string \<Rightarrow> string list" where
  "splitLines [] = [[]]"
| "splitLines (c # cs) =
     (if c = CHR 0x0A then [] # splitLines cs
      else (case splitLines cs of l # ls \<Rightarrow> (c # l) # ls | [] \<Rightarrow> [[c]]))"

fun joinLines :: "string list \<Rightarrow> string" where
  "joinLines [] = []"
| "joinLines [l] = l"
| "joinLines (l # ls) = l @ [CHR 0x0A] @ joinLines ls"

text \<open>
  \<open>reFixLines\<close> is \<open>(?m)^level=info msg="(.*)"$\<close>: a whole line that starts with
  the decoration and ends with a double quote; the replacement \<open>$1\<close> keeps what lies
  between.
\<close>

definition fixLine :: "string \<Rightarrow> string" where
  "fixLine l =
     (let p = ''level=info msg='' @ [CHR 0x22] in
      if length p + 1 \<le> length l \<and> HasPrefix l p \<and> last l = CHR 0x22
      then butlast (drop (length p) l) else l)"

definition reFixLines_ReplaceAllString :: "string \<Rightarrow> string" where
  "reFixLines_ReplaceAllString s = joinLines (map fixLine (splitLines s))"

section \<open>External collaborators\<close>

text \<open>
  Every effect of \<open>launchJob\<close> is appended to a trace of calls. What a remote call
  answers is decided by the environment and may depend on everything done so far, so each
  collaborator is a function of the trace at the moment of the call.
\<close>

datatype Unstructured = Content ProwJob | Malformed string

datatype call =
    LoadConfig
  | ProwCreate string Unstructured
  | ProwGet string string
  | ProwPatch string string string
  | PodGet string string
  | PodExec string string string "string list"
  | PodGetLogs string string string nat
  | ClusterGetNamespace string string
  | Log string

text \<open>
  Modelled from the spec: the \<open>apiv1\<close> package (\<open>HasProwJob\<close>,
  \<open>ProwSpecForPeriodicConfig\<close>) is not among the source files; a loaded configuration
  is the partial map from a job name to the specification its template resolves to.
\<close>

type_synonym Config = "string \<Rightarrow> ProwJobSpec option"

record jobManager =
  prowConfigLoader :: "call list \<Rightarrow> Config option"
  prowNamespace :: string
  prowClient_Create :: "call list \<Rightarrow> string \<Rightarrow> Unstructured \<Rightarrow> api_error option"
  prowClient_Get :: "call list \<Rightarrow> string \<Rightarrow> string \<Rightarrow> api_error + Unstructured"
  prowClient_Patch :: "call list \<Rightarrow> string \<Rightarrow> string \<Rightarrow> string \<Rightarrow> api_error option"
  coreClient_PodGet :: "call list \<Rightarrow> string \<Rightarrow> string \<Rightarrow> api_error + Pod"
  coreClient_GetLogs ::
    "call list \<Rightarrow> string \<Rightarrow> string \<Rightarrow> string \<Rightarrow> nat \<Rightarrow> string \<times> api_error option"
  coreConfig_NewSPDYExecutor :: "string option"
  executor_Stream ::
    "call list \<Rightarrow> string \<Rightarrow> string \<Rightarrow> string \<Rightarrow> string list \<Rightarrow> api_error + string"
  clientcmd_NewClientConfigFromBytes :: "string \<Rightarrow> string + string"
  clientcmd_ClientConfig :: "string \<Rightarrow> string + string"
  clientset_NewForConfig :: "string \<Rightarrow> string option"
  cluster_GetNamespace :: "call list \<Rightarrow> string \<Rightarrow> string \<Rightarrow> api_error option"
  ticks :: "nat \<Rightarrow> nat \<Rightarrow> nat"

subsection \<open>The stage poller\<close>

text \<open>
  Modelled from the spec: \<open>wait.PollImmediate\<close> belongs to a library outside the
  source files. The condition is tried at once and then once per tick; it stops with
  success when the condition reports done, with the condition's error when it returns
  one, and with \<open>ErrWaitTimeout\<close> when the ticks allowed by the timeout are used up.
  \<open>ticks m interval timeout\<close> is the number of further attempts the clock allows.
\<close>

fun poll ::
  "nat \<Rightarrow> ('s \<Rightarrow> (bool \<times> error option) \<times> 's) \<Rightarrow> 's \<Rightarrow> error option \<times> 's" where
  "poll 0 cond s = (Some ErrWaitTimeout, s)"
| "poll (Suc n) cond s =
     (case cond s of
        ((done, Some e), s') \<Rightarrow> (Some e, s')
      | ((True, None), s') \<Rightarrow> (None, s')
      | ((False, None), s') \<Rightarrow> poll n cond s')"

definition PollImmediate ::
  "jobManager \<Rightarrow> nat \<Rightarrow> nat \<Rightarrow> ('s \<Rightarrow> (bool \<times> error option) \<times> 's) \<Rightarrow> 's \<Rightarrow> error option \<times> 's"
  where
  "PollImmediate m interval timeout cond s = poll (Suc (ticks m interval timeout)) cond s"

section \<open>pkg/prow\<close>

definition JobForConfig ::
  "jobManager \<Rightarrow> call list \<Rightarrow> string \<Rightarrow> (error + ProwJob) \<times> call list" where
  "JobForConfig m w jobName =
     (case prowConfigLoader m w of
        None \<Rightarrow>
          (Inl (Errorf (''the prow job '' @ jobName @
                        '' is not valid: no prow jobs have been defined'')), w @ [LoadConfig])
      | Some config \<Rightarrow>
          (case config jobName of
             None \<Rightarrow>
               (Inl (Errorf (''the prow job '' @ jobName @
                             '' is not valid: no job with that name'')), w @ [LoadConfig])
           | Some spec \<Rightarrow>
               (Inr \<lparr>pj_APIVersion = ''prow.k8s.io/v1'', pj_Kind = ''ProwJob'',
                     pj_ObjectMeta = \<lparr>meta_Name = [], meta_Namespace = [],
                                      Annotations = [], Labels = []\<rparr>,
                     pj_Spec = spec,
                     pj_Status = \<lparr>status_State = ''triggered'', status_URL = []\<rparr>\<rparr>,
                w @ [LoadConfig])))"

definition ObjectToUnstructured :: "ProwJob \<Rightarrow> Unstructured" where
  "ObjectToUnstructured pj = Content pj"

fun UnstructuredToObject :: "Unstructured \<Rightarrow> error + ProwJob" where
  "UnstructuredToObject (Content pj) = Inr pj"
| "UnstructuredToObject (Malformed msg) = Inl (Errorf msg)"

text \<open>
  The inner loop of \<open>OverrideJobEnvironment\<close>: the switch takes the first case whose
  name matches and leaves every other variable alone.
\<close>

definition overrideEnvVar :: "string \<Rightarrow> string \<Rightarrow> string \<Rightarrow> EnvVar \<Rightarrow> EnvVar" where
  "overrideEnvVar image' initialImage namespace e =
     (if env_Name e = ''RELEASE_IMAGE_LATEST'' then e\<lparr>env_Value := image'\<rparr>
      else if env_Name e = ''RELEASE_IMAGE_INITIAL'' then e\<lparr>env_Value := initialImage\<rparr>
      else if env_Name e = ''NAMESPACE'' then e\<lparr>env_Value := namespace\<rparr>
      else e)"

definition overrideContainer :: "string \<Rightarrow> string \<Rightarrow> string \<Rightarrow> Container \<Rightarrow> Container" where
  "overrideContainer image' initialImage namespace c =
     c\<lparr>c_Env := map (overrideEnvVar image' initialImage namespace) (c_Env c)\<rparr>"

text \<open>
  \<open>spec.PodSpec\<close> is a pointer: ranging over the containers of a nil pod specification
  panics, which is the result \<open>None\<close>.
\<close>

definition OverrideJobEnvironment ::
  "ProwJobSpec \<Rightarrow> string \<Rightarrow> string \<Rightarrow> string \<Rightarrow> ProwJobSpec option" where
  "OverrideJobEnvironment spec image' initialImage namespace =
     (case spec_PodSpec spec of
        None \<Rightarrow> None
      | Some ps \<Rightarrow>
          Some (spec\<lparr>spec_PodSpec :=
            Some (ps\<lparr>Containers :=
              map (overrideContainer image' initialImage namespace) (Containers ps)\<rparr>)\<rparr>))"

section \<open>The lifecycle orchestrator\<close>

fun findTargetArg :: "string list \<Rightarrow> string option" where
  "findTargetArg [] = None"
| "findTargetArg (arg # args) =
     (if HasPrefix arg ''--target='' \<and> length (TrimPrefix arg ''--target='') > 0
      then Some (TrimPrefix arg ''--target='')
      else findTargetArg args)"

fun findTargetContainers :: "Container list \<Rightarrow> string option" where
  "findTargetContainers [] = None"
| "findTargetContainers (container # rest) =
     (if c_Name container \<noteq> [] then findTargetContainers rest
      else (case findTargetArg (c_Args container) of
              Some name' \<Rightarrow> Some name'
            | None \<Rightarrow> findTargetContainers rest))"

definition findTargetName :: "PodSpec option \<Rightarrow> error + string" where
  "findTargetName spec =
     (case spec of
        None \<Rightarrow> Inl (Errorf ''prow job has no pod spec, cannot find target pod name'')
      | Some ps \<Rightarrow>
          (case findTargetContainers (Containers ps) of
             Some name' \<Rightarrow> Inr name'
           | None \<Rightarrow>
               Inl (Errorf (''could not find argument --target=X in prow job pod spec '' @
                            ''to identify target pod name''))))"

fun containerSuccessful :: "ContainerStatus list \<Rightarrow> string \<Rightarrow> bool \<times> error option" where
  "containerSuccessful [] containerName = (False, None)"
| "containerSuccessful (container # rest) containerName =
     (if cs_Name container \<noteq> containerName then containerSuccessful rest containerName
      else (case cs_Terminated container of
              None \<Rightarrow> (False, None)
            | Some exitCode \<Rightarrow> (exitCode = 0, None)))"

definition terminalPhase :: "Pod \<Rightarrow> bool" where
  "terminalPhase pod = (Phase pod = ''Succeeded'' \<or> Phase pod = ''Failed'')"

subsection \<open>Step 3: the job's URL\<close>

definition urlCondition ::
  "jobManager \<Rightarrow> Job \<times> call list \<Rightarrow> (bool \<times> error option) \<times> (Job \<times> call list)" where
  "urlCondition m = (\<lambda>(job, w).
     let w' = w @ [ProwGet (prowNamespace m) (Name job)] in
     case prowClient_Get m w (prowNamespace m) (Name job) of
       Inl e \<Rightarrow> ((False, Some (Api e)), (job, w'))
     | Inr uns \<Rightarrow>
         (case UnstructuredToObject uns of
            Inl e \<Rightarrow> ((False, Some e), (job, w'))
          | Inr pj \<Rightarrow>
              if length (status_URL (pj_Status pj)) > 0
              then ((True, None), (job\<lparr>URL := status_URL (pj_Status pj)\<rparr>, w'))
              else ((False, None), (job, w'))))"

subsection \<open>Step 4: the job's own pod\<close>

definition visibilityCondition ::
  "jobManager \<Rightarrow> Job \<Rightarrow> bool \<times> call list \<Rightarrow> (bool \<times> error option) \<times> (bool \<times> call list)"
  where
  "visibilityCondition m job = (\<lambda>(seen, w).
     let w' = w @ [PodGet (prowNamespace m) (Name job)] in
     case coreClient_PodGet m w (prowNamespace m) (Name job) of
       Inl e \<Rightarrow>
         if \<not> IsNotFound e then ((False, Some (Api e)), (seen, w'))
         else if seen then ((False, Some (Errorf ''pod was deleted'')), (seen, w'))
         else ((False, None), (seen, w'))
     | Inr pod \<Rightarrow>
         if terminalPhase pod
         then ((False, Some (Errorf ''pod has already exited'')), (True, w'))
         else ((True, None), (True, w')))"

subsection \<open>Step 5: the setup container\<close>

definition setupCondition ::
  "jobManager \<Rightarrow> string \<Rightarrow> string \<Rightarrow> bool \<times> error option \<times> call list \<Rightarrow>
   (bool \<times> error option) \<times> (bool \<times> error option \<times> call list)" where
  "setupCondition m namespace targetPodName = (\<lambda>(seen, lastErr, w).
     let w' = w @ [PodGet namespace targetPodName] in
     case coreClient_PodGet m w namespace targetPodName of
       Inl e \<Rightarrow>
         if \<not> IsNotFound e \<and> \<not> IsForbidden e
         then ((False, Some (Api e)), (seen, Some (Api e), w'))
         else if seen then ((False, Some (Errorf ''pod was deleted'')), (seen, lastErr, w'))
         else ((False, None), (seen, lastErr, w'))
     | Inr pod \<Rightarrow>
         if terminalPhase pod
         then ((False, Some (Errorf ''pod has already exited'')), (True, lastErr, w'))
         else (case containerSuccessful (ContainerStatuses pod) ''setup'' of
                 (ok, Some err) \<Rightarrow> ((False, Some err), (True, lastErr, w'))
               | (ok, None) \<Rightarrow> ((ok, None), (True, lastErr, w'))))"

subsection \<open>Step 6: the credentials\<close>

definition commandContents ::
  "jobManager \<Rightarrow> call list \<Rightarrow> string \<Rightarrow> string \<Rightarrow> string \<Rightarrow> string list \<Rightarrow>
   (string \<times> error option) \<times> call list" where
  "commandContents m w ns name' containerName command =
     (case coreConfig_NewSPDYExecutor m of
        Some msg \<Rightarrow>
          (([], Some (Errorf (''could not initialize a new SPDY executor: '' @ msg))), w)
      | None \<Rightarrow>
          (case executor_Stream m w ns name' containerName command of
             Inl e \<Rightarrow> (([], Some (Api e)), w @ [PodExec ns name' containerName command])
           | Inr out \<Rightarrow> ((out, None), w @ [PodExec ns name' containerName command])))"

text \<open>
  The test made after "container not found": the fetch reported NotFound, or it returned
  a pod in a terminal phase. (On an error the typed client hands back an empty pod, whose
  phase is the empty string.)
\<close>

definition podGone :: "api_error + Pod \<Rightarrow> bool" where
  "podGone fetched = (case fetched of Inl e \<Rightarrow> IsNotFound e | Inr pod \<Rightarrow> terminalPhase pod)"

definition credentialCondition ::
  "jobManager \<Rightarrow> string \<Rightarrow> string \<Rightarrow> string \<times> call list \<Rightarrow>
   (bool \<times> error option) \<times> (string \<times> call list)" where
  "credentialCondition m namespace targetPodName = (\<lambda>(kubeconfig, w).
     case commandContents m w namespace targetPodName ''test''
            [''cat'', ''/tmp/admin.kubeconfig''] of
       ((contents, Some err), w1) \<Rightarrow>
         if Contains (Error err) ''container not found''
         then (if podGone (coreClient_PodGet m w1 namespace targetPodName)
               then ((False, Some (Errorf (''pod cannot be found or has been deleted, '' @
                                           ''assume cluster won't come up''))),
                     (kubeconfig, w1 @ [PodGet namespace targetPodName]))
               else ((False, None), (kubeconfig, w1 @ [PodGet namespace targetPodName])))
         else ((False, None),
               (kubeconfig, w1 @ [Log (''Unable to retrieve config contents: '' @ Error err)]))
     | ((contents, None), w1) \<Rightarrow> ((length contents > 0, None), (contents, w1)))"

subsection \<open>Step 7: reachability\<close>

definition loadKubeconfigContents :: "jobManager \<Rightarrow> string \<Rightarrow> error + string" where
  "loadKubeconfigContents m contents =
     (case clientcmd_NewClientConfigFromBytes m contents of
        Inl msg \<Rightarrow> Inl (Errorf (''could not load client configuration: '' @ msg))
      | Inr cfg \<Rightarrow>
          (case clientcmd_ClientConfig m cfg of
             Inl msg \<Rightarrow> Inl (Errorf (''could not load client configuration: '' @ msg))
           | Inr clusterConfig \<Rightarrow> Inr clusterConfig))"

definition reachableCondition ::
  "jobManager \<Rightarrow> string \<Rightarrow> call list \<Rightarrow> (bool \<times> error option) \<times> call list" where
  "reachableCondition m host = (\<lambda>w.
     case cluster_GetNamespace m w host ''openshift-apiserver'' of
       None \<Rightarrow> ((True, None), w @ [ClusterGetNamespace host ''openshift-apiserver''])
     | Some e \<Rightarrow>
         ((False, None),
          w @ [ClusterGetNamespace host ''openshift-apiserver'',
               Log (''cluster is not yet reachable '' @ host @ '': '' @ api_message e)]))"

definition waitForClusterReachable ::
  "jobManager \<Rightarrow> string \<Rightarrow> call list \<Rightarrow> error option \<times> call list" where
  "waitForClusterReachable m kubeconfig w =
     (case loadKubeconfigContents m kubeconfig of
        Inl err \<Rightarrow> (Some err, w)
      | Inr cfg \<Rightarrow>
          (case clientset_NewForConfig m cfg of
             Some msg \<Rightarrow> (Some (Errorf msg), w)
           | None \<Rightarrow> PollImmediate m 15 (20 * 60) (reachableCondition m cfg) w))"

subsection \<open>Steps 7 to 9: what follows the credentials\<close>

definition channelPatch :: string where
  "channelPatch =
     ''{'' @ [CHR 0x22] @ ''metadata'' @ [CHR 0x22] @ '':{'' @ [CHR 0x22] @ ''annotations'' @
     [CHR 0x22] @ '':{'' @ [CHR 0x22] @ ''ci-chat-bot.openshift.io/channel'' @ [CHR 0x22] @
     '':'' @ [CHR 0x22, CHR 0x22] @ ''}}}''"

definition deliver ::
  "jobManager \<Rightarrow> string \<Rightarrow> string \<Rightarrow> string \<Rightarrow> Job \<Rightarrow> call list \<Rightarrow>
   error option \<times> Job \<times> call list" where
  "deliver m namespace targetPodName kubeconfig job w =
     (let job1 = job\<lparr>Credentials := kubeconfig\<rparr>;
          (reach, w1) = waitForClusterReachable m kubeconfig w;
          (waitErr, job2, w2) =
            (case reach of
               Some err \<Rightarrow>
                 (Some (Errorf (''cluster did not become reachable: '' @ Error err)),
                  job1\<lparr>Credentials := []\<rparr>,
                  w1 @ [Log (''error: unable to wait for the cluster to start: '' @ Error err)])
             | None \<Rightarrow> (None, job1, w1));
          (logs, logErr) = coreClient_GetLogs m w2 namespace targetPodName ''setup'' 2;
          w3 = w2 @ [PodGetLogs namespace targetPodName ''setup'' 2] @
               (case logErr of
                  Some e \<Rightarrow> [Log ''error: unable to get setup logs'']
                | None \<Rightarrow> []);
          job3 = job2\<lparr>PasswordSnippet := reFixLines_ReplaceAllString logs\<rparr>;
          w4 = w3 @ [ProwPatch (prowNamespace m) (Name job3) channelPatch] @
               (case prowClient_Patch m w3 (prowNamespace m) (Name job3) channelPatch of
                  Some e \<Rightarrow>
                    [Log (''error: unable to clear channel annotation from prow job: '' @
                          api_message e)]
                | None \<Rightarrow> [])
      in (waitErr, job3, w4))"

subsection \<open>Steps 1 to 6\<close>

text \<open>
  The check after \<open>Create\<close>: an error other than "already exists" is returned, "already
  exists" and success both carry on.
\<close>

definition createFailure :: "api_error option \<Rightarrow> error option" where
  "createFailure created =
     (case created of
        Some e \<Rightarrow> if \<not> IsAlreadyExists e then Some (Api e) else None
      | None \<Rightarrow> None)"

definition stampJob :: "jobManager \<Rightarrow> Job \<Rightarrow> string \<Rightarrow> ProwJob \<Rightarrow> ProwJob" where
  "stampJob m job namespace pj =
     (let pj1 = pj\<lparr>pj_ObjectMeta :=
            \<lparr>meta_Name = Name job,
             meta_Namespace = prowNamespace m,
             Annotations =
               [(''ci-chat-bot.openshift.io/mode'', Mode job),
                (''ci-chat-bot.openshift.io/user'', RequestedBy job),
                (''ci-chat-bot.openshift.io/channel'', RequestedChannel job),
                (''ci-chat-bot.openshift.io/ns'', namespace),
                (''ci-chat-bot.openshift.io/releaseImage'', InstallImage job),
                (''ci-chat-bot.openshift.io/upgradeImage'', UpgradeImage job),
                (''prow.k8s.io/job'', spec_Job (pj_Spec pj))],
             Labels =
               [(''ci-chat-bot.openshift.io/launch'', ''true''),
                (''prow.k8s.io/type'', spec_Type (pj_Spec pj)),
                (''prow.k8s.io/job'', spec_Job (pj_Spec pj))]\<rparr>\<rparr>
      in if length (InstallVersion job) > 0 \<and> length (UpgradeVersion job) > 0
         then pj1\<lparr>pj_ObjectMeta := (pj_ObjectMeta pj1)
                \<lparr>Labels := AList.update ''release.openshift.io/verify'' ''true''
                             (Labels (pj_ObjectMeta pj1)),
                 Annotations :=
                   AList.update ''release.openshift.io/tag'' (UpgradeVersion job)
                     (AList.update ''release.openshift.io/from-tag'' (InstallVersion job)
                        (Annotations (pj_ObjectMeta pj1)))\<rparr>\<rparr>
         else pj1)"

text \<open>
  \<open>launchJob\<close> is written in three parts: \<open>submitJob\<close> (from the re-entry guard
  to the URL poll), \<open>awaitCluster\<close> (from the mode check to the credential poll) and
  \<open>deliver\<close>. \<open>Inl\<close> is a return from the function (with its result, the request
  and the trace); \<open>Inr\<close> carries on with what the next part needs.
\<close>

type_synonym launch_progress =
  "(error option \<times> Job \<times> call list) + (string \<times> string \<times> string \<times> Job \<times> call list)"

type_synonym submit_progress =
  "(error option \<times> Job \<times> call list) + (string \<times> string \<times> Job \<times> call list)"

definition surfaceLastErr :: "error option \<Rightarrow> error \<Rightarrow> error" where
  "surfaceLastErr lastErr err =
     (case lastErr of
        Some l \<Rightarrow> (if err = ErrWaitTimeout then l else err)
      | None \<Rightarrow> err)"

definition awaitCluster ::
  "jobManager \<Rightarrow> string \<Rightarrow> string \<Rightarrow> Job \<Rightarrow> call list \<Rightarrow> launch_progress" where
  "awaitCluster m namespace targetPodName job w =
     (if Mode job \<noteq> ''launch'' then Inl (None, job, w)
      else
       (case PollImmediate m 5 (15 * 60) (visibilityCondition m job) (False, w) of
          (Some err, (seen, w1)) \<Rightarrow>
            Inl (Some (Errorf (''unable to check launch status: '' @ Error err)), job, w1)
        | (None, (seen, w1)) \<Rightarrow>
           (let w2 = w1 @ [Log (''waiting for setup container in pod '' @ namespace @ ''/'' @
                                targetPodName @ '' to complete'')]
            in
             (case PollImmediate m 5 (45 * 60) (setupCondition m namespace targetPodName)
                     (False, None, w2) of
                (Some err, (seen', lastErr, w3)) \<Rightarrow>
                  Inl (Some (Errorf (''pod never became available: '' @
                                     Error (surfaceLastErr lastErr err))),
                       job, w3)
              | (None, (seen', lastErr, w3)) \<Rightarrow>
                 (let w4 = w3 @ [Log ''trying to grab the kubeconfig from launched pod''] in
                   (case PollImmediate m 30 (10 * 60)
                           (credentialCondition m namespace targetPodName) ([], w4) of
                      (Some err, (kubeconfig, w5)) \<Rightarrow>
                        Inl (Some (Errorf (''could not retrieve kubeconfig from pod: '' @
                                           Error err)),
                             job, w5)
                    | (None, (kubeconfig, w5)) \<Rightarrow>
                        Inr (namespace, targetPodName, kubeconfig, job, w5)))))))"

definition createAndAwaitURL ::
  "jobManager \<Rightarrow> string \<Rightarrow> string \<Rightarrow> ProwJob \<Rightarrow> Job \<Rightarrow> call list \<Rightarrow> submit_progress" where
  "createAndAwaitURL m namespace targetPodName pj job w =
     (let created = prowClient_Create m w (prowNamespace m) (ObjectToUnstructured pj);
          w1 = w @ [ProwCreate (prowNamespace m) (ObjectToUnstructured pj)]
      in
       (case createFailure created of
          Some err \<Rightarrow> Inl (Some err, job, w1)
        | None \<Rightarrow>
           (let w2 = w1 @ [Log (''prow job '' @ Name job @
                                '' launched to target namespace '' @ namespace)]
            in
             (case PollImmediate m 10 (15 * 60) (urlCondition m) (job, w2) of
                (Some err, (job', w3)) \<Rightarrow>
                  Inl (Some (Errorf (''did not retrieve job url due to an error: '' @
                                     Error err)),
                       job', w3)
              | (None, (job', w3)) \<Rightarrow> Inr (namespace, targetPodName, job', w3)))))"

definition submitJob :: "jobManager \<Rightarrow> Job \<Rightarrow> call list \<Rightarrow> submit_progress" where
  "submitJob m job w =
     (if length (Credentials job) > 0 \<and> length (PasswordSnippet job) > 0
      then Inl (None, job, w)
      else
       (let namespace = ''ci-ln-'' @ namespaceSafeHash [Name job] in
         (case JobForConfig m w (JobName job) of
            (Inl err, w1) \<Rightarrow> Inl (Some err, job, w1)
          | (Inr pj, w1) \<Rightarrow>
             (case findTargetName (spec_PodSpec (pj_Spec pj)) of
                Inl err \<Rightarrow> Inl (Some err, job, w1)
              | Inr targetPodName \<Rightarrow>
                 (let pj2 = stampJob m job namespace pj;
                      image' = (if length (UpgradeImage job) > 0 then UpgradeImage job
                                else InstallImage job);
                      initialImage = (if length (UpgradeImage job) > 0 then InstallImage job
                                      else [])
                  in
                   (case OverrideJobEnvironment (pj_Spec pj2) image' initialImage namespace of
                      None \<Rightarrow> Inl (Some (Panic ''nil pointer dereference''), job, w1)
                    | Some spec \<Rightarrow>
                        createAndAwaitURL m namespace targetPodName (pj2\<lparr>pj_Spec := spec\<rparr>)
                          job w1))))))"

definition launchStages :: "jobManager \<Rightarrow> Job \<Rightarrow> call list \<Rightarrow> launch_progress" where
  "launchStages m job w =
     (case submitJob m job w of
        Inl returned \<Rightarrow> Inl returned
      | Inr (namespace, targetPodName, job', w') \<Rightarrow>
          awaitCluster m namespace targetPodName job' w')"

definition launchJob ::
  "jobManager \<Rightarrow> Job \<Rightarrow> call list \<Rightarrow> error option \<times> Job \<times> call list" where
  "launchJob m job w =
     (case launchStages m job w of
        Inl returned \<Rightarrow> returned
      | Inr (namespace, targetPodName, kubeconfig, job', w') \<Rightarrow>
          deliver m namespace targetPodName kubeconfig job' w')"

section \<open>A concrete run\<close>

text \<open>
  The request of the specification's example, a template with one unnamed container that
  carries \<open>--target=test\<close>, and a platform on which every stage succeeds. The examples
  below vary single answers of this platform.
\<close>

definition example_spec :: ProwJobSpec where
  "example_spec =
     \<lparr>spec_Type = ''periodic'', spec_Job = ''release-launch'',
      spec_PodSpec = Some \<lparr>Containers =
        [\<lparr>c_Name = [], c_Args = [''--artifact-dir=/tmp'', ''--target=test''],
          c_Env = [\<lparr>env_Name = ''RELEASE_IMAGE_LATEST'', env_Value = ''old-image''\<rparr>,
                   \<lparr>env_Name = ''CLUSTER_TYPE'', env_Value = ''aws''\<rparr>,
                   \<lparr>env_Name = ''NAMESPACE'', env_Value = ''old-namespace''\<rparr>]\<rparr>,
         \<lparr>c_Name = ''sidecar'', c_Args = [],
          c_Env = [\<lparr>env_Name = ''RELEASE_IMAGE_INITIAL'', env_Value = ''old-initial''\<rparr>,
                   \<lparr>env_Name = ''NAMESPACE'', env_Value = ''old-namespace''\<rparr>]\<rparr>]\<rparr>\<rparr>"

definition example_job :: Job where
  "example_job =
     \<lparr>Name = ''launch-abc123'', JobName = ''release-launch'', Mode = ''launch'',
      RequestedBy = ''user'', RequestedChannel = ''channel'',
      InstallImage = ''registry/img:latest'', UpgradeImage = [],
      InstallVersion = [], UpgradeVersion = [],
      URL = [], Credentials = [], PasswordSnippet = []\<rparr>"

definition example_prowjob :: ProwJob where
  "example_prowjob =
     \<lparr>pj_APIVersion = ''prow.k8s.io/v1'', pj_Kind = ''ProwJob'',
      pj_ObjectMeta = \<lparr>meta_Name = ''launch-abc123'', meta_Namespace = ''ci'',
                       Annotations = [], Labels = []\<rparr>,
      pj_Spec = example_spec,
      pj_Status = \<lparr>status_State = ''pending'', status_URL = ''https://prow/view/1''\<rparr>\<rparr>"

definition running_pod :: Pod where
  "running_pod =
     \<lparr>Phase = ''Running'',
      ContainerStatuses = [\<lparr>cs_Name = ''setup'', cs_Terminated = Some 0\<rparr>,
                           \<lparr>cs_Name = ''test'', cs_Terminated = None\<rparr>]\<rparr>"

definition example_manager :: jobManager where
  "example_manager =
     \<lparr>prowConfigLoader =
        (\<lambda>w. Some (\<lambda>n. if n = ''release-launch'' then Some example_spec else None)),
      prowNamespace = ''ci'',
      prowClient_Create = (\<lambda>w ns u. None),
      prowClient_Get = (\<lambda>w ns n. Inr (Content example_prowjob)),
      prowClient_Patch = (\<lambda>w ns n p. None),
      coreClient_PodGet = (\<lambda>w ns n. Inr running_pod),
      coreClient_GetLogs = (\<lambda>w ns n c l. (''Login to the console with user: kubeadmin'', None)),
      coreConfig_NewSPDYExecutor = None,
      executor_Stream = (\<lambda>w ns n c cmd. Inr ''apiVersion: v1''),
      clientcmd_NewClientConfigFromBytes = (\<lambda>contents. Inr contents),
      clientcmd_ClientConfig = (\<lambda>cfg. Inr ''https://api.cluster:6443''),
      clientset_NewForConfig = (\<lambda>cfg. None),
      cluster_GetNamespace = (\<lambda>w host n. None),
      ticks = (\<lambda>interval timeout. 2)\<rparr>"


text \<open>A platform on which the target container has not started and its pod is gone.\<close>

definition lost_pod_manager :: jobManager where
  "lost_pod_manager =
     example_manager\<lparr>
       executor_Stream := (\<lambda>w ns n c cmd. Inl (Failure ''container not found (test)'')),
       coreClient_PodGet := (\<lambda>w ns n. Inl (NotFound ''pod not found''))\<rparr>"

text \<open>A platform on which the provisioned cluster never answers.\<close>

definition unreachable_manager :: jobManager where
  "unreachable_manager =
     example_manager\<lparr>cluster_GetNamespace :=
       (\<lambda>w host n. Some (Failure ''connection refused''))\<rparr>"


text \<open>
  The calls that only the steps after the URL poll make: fetching a pod, executing in a
  container, reading logs, probing the provisioned cluster and patching the job.
\<close>

fun laterStageCall :: "call \<Rightarrow> bool" where
  "laterStageCall (PodGet ns n) = True"
| "laterStageCall (PodExec ns n c cmd) = True"
| "laterStageCall (PodGetLogs ns n c l) = True"
| "laterStageCall (ClusterGetNamespace host n) = True"
| "laterStageCall (ProwPatch ns n p) = True"
| "laterStageCall _ = False"

text \<open>
  \<open>quiet_extension w w'\<close>: the trace \<open>w'\<close> is \<open>w\<close> followed by calls none of which
  belongs to a later stage.
\<close>

definition quiet_extension :: "call list \<Rightarrow> call list \<Rightarrow> bool" where
  "quiet_extension w w' =
     (take (length w) w' = w \<and> list_all (\<lambda>c. \<not> laterStageCall c) (drop (length w) w'))"

text \<open>The trace at the point where \<open>submitJob\<close> stops.\<close>

fun submit_trace :: "submit_progress \<Rightarrow> call list" where
  "submit_trace (Inl (r, job, w)) = w"
| "submit_trace (Inr (ns, t, job, w)) = w"


section \<open>Properties of the hasher\<close>

lemma length_be_bytes: "length (be_bytes x) = 4"
  by (simp add: be_bytes_def)

lemma length_digest_bytes: "length (digest_bytes s) = 32"
  by (cases s rule: digest_bytes.cases) (simp add: length_be_bytes)

lemma length_sha256_Sum: "length (sha256_Sum m) = 32"
  by (simp add: sha256_Sum_def Let_def length_digest_bytes)

lemma list4: "length xs = 4 \<Longrightarrow> \<exists>a b c d. xs = [a, b, c, d]"
  by (cases xs; simp; (rename_tac a as, case_tac as; simp;
       (rename_tac b bs, case_tac bs; simp; (rename_tac c cs, case_tac cs; simp))))

lemma symbol_index: "unat ((b::byte) AND 31) < 32"
proof -
  have "unat (b AND 31) \<le> unat (31 :: byte)"
    by (rule word_and_le1 [THEN word_le_nat_alt [THEN iffD1]])
  then show ?thesis by simp
qed

lemma length_encode_symbols: "length (encode_symbols al bs) = length bs"
  by (simp add: encode_symbols_def)

lemma length_quantum: "length (quantum a b c d e) = 8"
  by (simp add: quantum_def)

lemma encode_symbols_in_alphabet:
  "length al = 32 \<Longrightarrow> set (encode_symbols al bs) \<subseteq> set al"
  by (auto simp: encode_symbols_def symbol_index)

lemma Encode4_length: "length (EncodeToString al [a, b, c, d]) = 7"
  by (simp add: length_encode_symbols length_quantum)

lemma Encode4_alphabet:
  "length al = 32 \<Longrightarrow> set (EncodeToString al [a, b, c, d]) \<subseteq> set al"
  using encode_symbols_in_alphabet [of al] by (auto dest!: in_set_takeD)

lemma length_alphabet: "length oneWayNameEncoding = 32"
  by (simp add: oneWayNameEncoding_def)

lemma distinct_alphabet: "distinct oneWayNameEncoding"
  by (simp add: oneWayNameEncoding_def)

lemma foldl_hash_Write: "foldl hash_Write buf vs = buf @ concat (map bytes_of_string vs)"
  by (induction vs arbitrary: buf) (simp_all add: hash_Write_def)

lemma digest_prefix:
  "\<exists>a b c d. take 4 (sha256_Sum (foldl hash_Write [] vs)) = [a, b, c, d]"
proof -
  have "length (take 4 (sha256_Sum (foldl hash_Write [] vs))) = 4"
    by (simp add: length_sha256_Sum)
  then show ?thesis by (rule list4)
qed

lemma hash_length: "length (namespaceSafeHash vs) = 7"
proof -
  obtain a b c d where "take 4 (sha256_Sum (foldl hash_Write [] vs)) = [a, b, c, d]"
    using digest_prefix by blast
  then show ?thesis
    unfolding namespaceSafeHash_def by (simp only: Encode4_length)
qed

lemma hash_alphabet: "set (namespaceSafeHash vs) \<subseteq> set oneWayNameEncoding"
proof -
  obtain a b c d where "take 4 (sha256_Sum (foldl hash_Write [] vs)) = [a, b, c, d]"
    using digest_prefix by blast
  then show ?thesis
    unfolding namespaceSafeHash_def using Encode4_alphabet [OF length_alphabet] by simp
qed

lemma alphabet_lower_or_digit:
  "list_all (\<lambda>c. (97 \<le> (of_char c :: nat) \<and> (of_char c :: nat) \<le> 122) \<or>
                  (48 \<le> (of_char c :: nat) \<and> (of_char c :: nat) \<le> 57)) oneWayNameEncoding"
  by (simp add: oneWayNameEncoding_def)

lemma alphabet_no_vowels: "set ''aeou'' \<inter> set oneWayNameEncoding = {}"
  by (simp add: oneWayNameEncoding_def)

text \<open>
  C7, as the source has it. The hasher is a function of the concatenated input bytes
  alone, so equal inputs give equal outputs. Its output is the base32 encoding, without
  padding, of the first 4 bytes of the SHA-256 digest of those bytes: 7 symbols, all taken
  from \<open>oneWayNameEncoding\<close>. That alphabet has 32 distinct symbols, each a lowercase
  ASCII letter (codes 97 to 122) or a digit (codes 48 to 57), and leaves out the letters
  a, e, o and u. Of the 36 lowercase letters and digits these four are the only ones left
  out, so the look-alikes 0, 1, i and l are part of the alphabet.
\<close>

theorem namespaceSafeHash_encoding:
  "namespaceSafeHash vs =
     EncodeToString oneWayNameEncoding
       (take 4 (sha256_Sum (concat (map bytes_of_string vs)))) \<and>
   length (take 4 (sha256_Sum (concat (map bytes_of_string vs)))) = 4 \<and>
   length (namespaceSafeHash vs) = 7 \<and>
   set (namespaceSafeHash vs) \<subseteq> set oneWayNameEncoding \<and>
   length oneWayNameEncoding = 32 \<and>
   distinct oneWayNameEncoding \<and>
   list_all (\<lambda>c. (97 \<le> (of_char c :: nat) \<and> (of_char c :: nat) \<le> 122) \<or>
                  (48 \<le> (of_char c :: nat) \<and> (of_char c :: nat) \<le> 57)) oneWayNameEncoding \<and>
   set ''aeou'' \<inter> set oneWayNameEncoding = {}"
proof -
  have "namespaceSafeHash vs =
     EncodeToString oneWayNameEncoding
       (take 4 (sha256_Sum (concat (map bytes_of_string vs))))"
    by (simp add: namespaceSafeHash_def foldl_hash_Write)
  moreover have "length (take 4 (sha256_Sum (concat (map bytes_of_string vs)))) = 4"
    by (simp add: length_sha256_Sum)
  ultimately show ?thesis
    using hash_length [of vs] hash_alphabet [of vs] length_alphabet distinct_alphabet
      alphabet_lower_or_digit alphabet_no_vowels
    by blast
qed

theorem namespaceSafeHash_encoding_witness:
  "length (namespaceSafeHash [''launch-'', ''abc123'']) = 7 \<and>
   set (namespaceSafeHash [''launch-'', ''abc123'']) \<subseteq> set oneWayNameEncoding"
  using namespaceSafeHash_encoding [of "[''launch-'', ''abc123'']"] by blast

text \<open>
  C7, as the specification words it, fails on the alphabet: the digits 0 and 1 and the
  letters l and i are all among its symbols.
\<close>

theorem oneWayNameEncoding_keeps_lookalikes:
  "CHR ''0'' \<in> set oneWayNameEncoding \<and> CHR ''1'' \<in> set oneWayNameEncoding \<and>
   CHR ''l'' \<in> set oneWayNameEncoding \<and> CHR ''i'' \<in> set oneWayNameEncoding"
  by (simp add: oneWayNameEncoding_def)

section \<open>Properties of the poller\<close>

lemma poll_success:
  "poll n c s = (None, s') \<Longrightarrow> \<exists>s0. c s0 = ((True, None), s')"
proof (induction n arbitrary: s)
  case 0
  then show ?case by simp
next
  case (Suc n)
  obtain d e s1 where c: "c s = ((d, e), s1)" by (metis surj_pair)
  show ?case
  proof (cases e)
    case (Some x)
    with Suc.prems c show ?thesis by (cases d) simp_all
  next
    case None
    show ?thesis
    proof (cases d)
      case True
      with Suc.prems c None show ?thesis by auto
    next
      case False
      with Suc.prems c None have "poll n c s1 = (None, s')" by simp
      then show ?thesis by (rule Suc.IH)
    qed
  qed
qed

lemma poll_numeral:
  "poll (numeral k) c s =
     (case c s of
        ((done, Some e), s') \<Rightarrow> (Some e, s')
      | ((True, None), s') \<Rightarrow> (None, s')
      | ((False, None), s') \<Rightarrow> poll (pred_numeral k) c s')"
  by (simp add: numeral_eq_Suc)

lemma poll_rel:
  assumes refl: "\<And>s. R s s"
    and trans: "\<And>a b c. R a b \<Longrightarrow> R b c \<Longrightarrow> R a c"
    and step: "\<And>s. R s (snd (c s))"
  shows "R s (snd (poll n c s))"
proof (induction n arbitrary: s)
  case 0
  show ?case by (simp add: refl)
next
  case (Suc n)
  obtain d e s1 where c: "c s = ((d, e), s1)" by (metis surj_pair)
  have r1: "R s s1" using step [of s] c by simp
  have "snd (poll (Suc n) c s) = s1 \<or> snd (poll (Suc n) c s) = snd (poll n c s1)"
    using c by (cases e; cases d) simp_all
  then show ?case
  proof
    assume "snd (poll (Suc n) c s) = s1"
    with r1 show ?thesis by simp
  next
    assume a: "snd (poll (Suc n) c s) = snd (poll n c s1)"
    have "R s (snd (poll n c s1))" by (rule trans [OF r1 Suc.IH])
    with a show ?thesis by simp
  qed
qed

section \<open>Properties of pkg/prow\<close>

lemma overrideEnvVar_name: "env_Name (overrideEnvVar i ii ns e) = env_Name e"
  by (simp add: overrideEnvVar_def)

lemma overrideEnvVar_cases:
  "(env_Name e = ''RELEASE_IMAGE_LATEST'' \<longrightarrow> env_Value (overrideEnvVar i ii ns e) = i) \<and>
   (env_Name e = ''RELEASE_IMAGE_INITIAL'' \<longrightarrow> env_Value (overrideEnvVar i ii ns e) = ii) \<and>
   (env_Name e = ''NAMESPACE'' \<longrightarrow> env_Value (overrideEnvVar i ii ns e) = ns) \<and>
   (env_Name e \<notin> {''RELEASE_IMAGE_LATEST'', ''RELEASE_IMAGE_INITIAL'', ''NAMESPACE''} \<longrightarrow>
      overrideEnvVar i ii ns e = e)"
  by (simp add: overrideEnvVar_def)

text \<open>
  C9. On a specification that has a pod specification, \<open>OverrideJobEnvironment\<close>
  changes nothing but the pod specification's containers; it keeps their number, and in
  every container the name, the arguments and the list of variable names. A variable named
  \<open>RELEASE_IMAGE_LATEST\<close>, \<open>RELEASE_IMAGE_INITIAL\<close> or \<open>NAMESPACE\<close> gets the
  image, the initial image or the namespace as its value; a variable of any other name is
  left as it was.
\<close>

theorem OverrideJobEnvironment_frame:
  assumes "spec_PodSpec spec = Some ps"
  shows "\<exists>ps'. OverrideJobEnvironment spec i ii ns = Some (spec\<lparr>spec_PodSpec := Some ps'\<rparr>) \<and>
     length (Containers ps') = length (Containers ps) \<and>
     (\<forall>k < length (Containers ps).
        c_Name (Containers ps' ! k) = c_Name (Containers ps ! k) \<and>
        c_Args (Containers ps' ! k) = c_Args (Containers ps ! k) \<and>
        map env_Name (c_Env (Containers ps' ! k)) = map env_Name (c_Env (Containers ps ! k)) \<and>
        (\<forall>j < length (c_Env (Containers ps ! k)).
           (env_Name (c_Env (Containers ps ! k) ! j) = ''RELEASE_IMAGE_LATEST'' \<longrightarrow>
              env_Value (c_Env (Containers ps' ! k) ! j) = i) \<and>
           (env_Name (c_Env (Containers ps ! k) ! j) = ''RELEASE_IMAGE_INITIAL'' \<longrightarrow>
              env_Value (c_Env (Containers ps' ! k) ! j) = ii) \<and>
           (env_Name (c_Env (Containers ps ! k) ! j) = ''NAMESPACE'' \<longrightarrow>
              env_Value (c_Env (Containers ps' ! k) ! j) = ns) \<and>
           (env_Name (c_Env (Containers ps ! k) ! j) \<notin>
              {''RELEASE_IMAGE_LATEST'', ''RELEASE_IMAGE_INITIAL'', ''NAMESPACE''} \<longrightarrow>
              c_Env (Containers ps' ! k) ! j = c_Env (Containers ps ! k) ! j)))"
proof -
  let ?ps' = "ps\<lparr>Containers := map (overrideContainer i ii ns) (Containers ps)\<rparr>"
  have eq: "OverrideJobEnvironment spec i ii ns = Some (spec\<lparr>spec_PodSpec := Some ?ps'\<rparr>)"
    using assms by (simp add: OverrideJobEnvironment_def)
  have len: "length (Containers ?ps') = length (Containers ps)" by simp
  have each: "c_Name (Containers ?ps' ! k) = c_Name (Containers ps ! k) \<and>
        c_Args (Containers ?ps' ! k) = c_Args (Containers ps ! k) \<and>
        map env_Name (c_Env (Containers ?ps' ! k)) = map env_Name (c_Env (Containers ps ! k)) \<and>
        (\<forall>j < length (c_Env (Containers ps ! k)).
           (env_Name (c_Env (Containers ps ! k) ! j) = ''RELEASE_IMAGE_LATEST'' \<longrightarrow>
              env_Value (c_Env (Containers ?ps' ! k) ! j) = i) \<and>
           (env_Name (c_Env (Containers ps ! k) ! j) = ''RELEASE_IMAGE_INITIAL'' \<longrightarrow>
              env_Value (c_Env (Containers ?ps' ! k) ! j) = ii) \<and>
           (env_Name (c_Env (Containers ps ! k) ! j) = ''NAMESPACE'' \<longrightarrow>
              env_Value (c_Env (Containers ?ps' ! k) ! j) = ns) \<and>
           (env_Name (c_Env (Containers ps ! k) ! j) \<notin>
              {''RELEASE_IMAGE_LATEST'', ''RELEASE_IMAGE_INITIAL'', ''NAMESPACE''} \<longrightarrow>
              c_Env (Containers ?ps' ! k) ! j = c_Env (Containers ps ! k) ! j))"
    if k: "k < length (Containers ps)" for k
  proof -
    have c: "Containers ?ps' ! k = overrideContainer i ii ns (Containers ps ! k)"
      using k by simp
    show ?thesis
      unfolding c using overrideEnvVar_cases [of _ i ii ns]
      by (simp add: overrideContainer_def overrideEnvVar_name comp_def)
  qed
  from eq len each show ?thesis by blast
qed

theorem OverrideJobEnvironment_frame_witness:
  "\<exists>ps'. OverrideJobEnvironment example_spec ''new-image'' ''first-image'' ''ci-ln-x'' =
           Some (example_spec\<lparr>spec_PodSpec := Some ps'\<rparr>) \<and>
         length (Containers ps') = 2"
proof -
  have h: "spec_PodSpec example_spec = Some \<lparr>Containers =
        [\<lparr>c_Name = [], c_Args = [''--artifact-dir=/tmp'', ''--target=test''],
          c_Env = [\<lparr>env_Name = ''RELEASE_IMAGE_LATEST'', env_Value = ''old-image''\<rparr>,
                   \<lparr>env_Name = ''CLUSTER_TYPE'', env_Value = ''aws''\<rparr>,
                   \<lparr>env_Name = ''NAMESPACE'', env_Value = ''old-namespace''\<rparr>]\<rparr>,
         \<lparr>c_Name = ''sidecar'', c_Args = [],
          c_Env = [\<lparr>env_Name = ''RELEASE_IMAGE_INITIAL'', env_Value = ''old-initial''\<rparr>,
                   \<lparr>env_Name = ''NAMESPACE'', env_Value = ''old-namespace''\<rparr>]\<rparr>]\<rparr>"
    by (simp add: example_spec_def)
  show ?thesis
    using OverrideJobEnvironment_frame [OF h, of "''new-image''" "''first-image''" "''ci-ln-x''"]
    by auto
qed

section \<open>Properties of the stages\<close>

lemma podGone_iff:
  "podGone f \<longleftrightarrow> (\<exists>e. f = Inl e \<and> IsNotFound e) \<or>
     (\<exists>pod. f = Inr pod \<and> (Phase pod = ''Succeeded'' \<or> Phase pod = ''Failed''))"
  by (cases f) (simp_all add: podGone_def terminalPhase_def)

text \<open>
  C3. One attempt of the credential poll, given what the remote command returned. An
  execution error whose message contains "container not found" is fatal, with the message
  "pod cannot be found or has been deleted, assume cluster won't come up", when the fresh
  fetch of the target pod reports NotFound or a pod in phase Succeeded or Failed, and is
  not-yet-ready otherwise; any other execution error is not-yet-ready; without an error
  the output is kept and the attempt reports done exactly when the output is non-empty.
\<close>

theorem credentialCondition_outcome:
  assumes "commandContents m w ns t ''test'' [''cat'', ''/tmp/admin.kubeconfig''] =
             ((contents, r), w1)"
  shows
    "(\<forall>err. r = Some err \<and> Contains (Error err) ''container not found'' \<and>
        podGone (coreClient_PodGet m w1 ns t) \<longrightarrow>
        fst (credentialCondition m ns t (k, w)) =
          (False, Some (Errorf (''pod cannot be found or has been deleted, '' @
                                ''assume cluster won't come up'')))) \<and>
     (\<forall>err. r = Some err \<and> Contains (Error err) ''container not found'' \<and>
        \<not> podGone (coreClient_PodGet m w1 ns t) \<longrightarrow>
        fst (credentialCondition m ns t (k, w)) = (False, None)) \<and>
     (\<forall>err. r = Some err \<and> \<not> Contains (Error err) ''container not found'' \<longrightarrow>
        fst (credentialCondition m ns t (k, w)) = (False, None)) \<and>
     (r = None \<longrightarrow>
        credentialCondition m ns t (k, w) = ((contents \<noteq> [], None), (contents, w1))) \<and>
     (fst (fst (credentialCondition m ns t (k, w))) \<longleftrightarrow> r = None \<and> contents \<noteq> []) \<and>
     (podGone (coreClient_PodGet m w1 ns t) \<longleftrightarrow>
        (\<exists>e. coreClient_PodGet m w1 ns t = Inl e \<and> IsNotFound e) \<or>
        (\<exists>pod. coreClient_PodGet m w1 ns t = Inr pod \<and>
               (Phase pod = ''Succeeded'' \<or> Phase pod = ''Failed'')))"
  using assms podGone_iff [of "coreClient_PodGet m w1 ns t"]
  by (cases r) (simp_all add: credentialCondition_def)

theorem credentialCondition_outcome_witness:
  "fst (credentialCondition lost_pod_manager ''ci-ln-x'' ''test'' ([], [])) =
     (False, Some (Errorf ''pod cannot be found or has been deleted, assume cluster won't come up'')) \<and>
   credentialCondition example_manager ''ci-ln-x'' ''test'' ([], []) =
     ((True, None),
      (''apiVersion: v1'',
       [PodExec ''ci-ln-x'' ''test'' ''test'' [''cat'', ''/tmp/admin.kubeconfig'']]))"
proof -
  have h: "commandContents lost_pod_manager [] ''ci-ln-x'' ''test'' ''test''
             [''cat'', ''/tmp/admin.kubeconfig''] =
           (([], Some (Api (Failure ''container not found (test)''))),
            [PodExec ''ci-ln-x'' ''test'' ''test'' [''cat'', ''/tmp/admin.kubeconfig'']])"
    by (simp add: commandContents_def lost_pod_manager_def example_manager_def)
  have c: "Contains (Error (Api (Failure ''container not found (test)''))) ''container not found''"
    by (simp add: HasPrefix_def)
  have g: "podGone (coreClient_PodGet lost_pod_manager
             [PodExec ''ci-ln-x'' ''test'' ''test'' [''cat'', ''/tmp/admin.kubeconfig'']]
             ''ci-ln-x'' ''test'')"
    by (simp add: podGone_def lost_pod_manager_def example_manager_def)
  have k: "commandContents example_manager [] ''ci-ln-x'' ''test'' ''test''
             [''cat'', ''/tmp/admin.kubeconfig''] =
           ((''apiVersion: v1'', None),
            [PodExec ''ci-ln-x'' ''test'' ''test'' [''cat'', ''/tmp/admin.kubeconfig'']])"
    by (simp add: commandContents_def example_manager_def)
  have first: "fst (credentialCondition lost_pod_manager ''ci-ln-x'' ''test'' ([], [])) =
     (False, Some (Errorf ''pod cannot be found or has been deleted, assume cluster won't come up''))"
    using credentialCondition_outcome [OF h, of "[]"] c g by (simp add: HasPrefix_def)
  have second: "credentialCondition example_manager ''ci-ln-x'' ''test'' ([], []) =
     ((True, None),
      (''apiVersion: v1'',
       [PodExec ''ci-ln-x'' ''test'' ''test'' [''cat'', ''/tmp/admin.kubeconfig'']]))"
    using credentialCondition_outcome [OF k, of "[]"] by simp
  from first second show ?thesis by (rule conjI)
qed





section \<open>Traces and the submission\<close>

lemma quiet_refl: "quiet_extension w w"
  by (simp add: quiet_extension_def)

lemma quiet_ex: "quiet_extension w w' \<longleftrightarrow> (\<exists>new. w' = w @ new \<and> (\<forall>c\<in>set new. \<not> laterStageCall c))"
proof
  assume q: "quiet_extension w w'"
  then have "w' = w @ drop (length w) w'"
    by (metis append_take_drop_id quiet_extension_def)
  moreover from q have "\<forall>c\<in>set (drop (length w) w'). \<not> laterStageCall c"
    by (simp add: quiet_extension_def list_all_iff)
  ultimately show "\<exists>new. w' = w @ new \<and> (\<forall>c\<in>set new. \<not> laterStageCall c)" by blast
next
  assume "\<exists>new. w' = w @ new \<and> (\<forall>c\<in>set new. \<not> laterStageCall c)"
  then show "quiet_extension w w'"
    by (auto simp: quiet_extension_def list_all_iff)
qed

lemma quiet_append:
  "quiet_extension w w' \<Longrightarrow> list_all (\<lambda>c. \<not> laterStageCall c) new \<Longrightarrow>
   quiet_extension w (w' @ new)"
proof -
  assume "quiet_extension w w'" and n: "list_all (\<lambda>c. \<not> laterStageCall c) new"
  then obtain n1 where "w' = w @ n1" "\<forall>c\<in>set n1. \<not> laterStageCall c"
    unfolding quiet_ex by blast
  with n have "w' @ new = w @ (n1 @ new)" "\<forall>c\<in>set (n1 @ new). \<not> laterStageCall c"
    by (auto simp: list_all_iff)
  then show ?thesis unfolding quiet_ex by blast
qed

lemma quiet_trans:
  "quiet_extension a b \<Longrightarrow> quiet_extension b c \<Longrightarrow> quiet_extension a c"
proof -
  assume "quiet_extension a b" "quiet_extension b c"
  then obtain n1 n2 where "b = a @ n1" "\<forall>c\<in>set n1. \<not> laterStageCall c"
    "c = b @ n2" "\<forall>c\<in>set n2. \<not> laterStageCall c"
    unfolding quiet_ex by blast
  then have "c = a @ (n1 @ n2)" "\<forall>c\<in>set (n1 @ n2). \<not> laterStageCall c" by auto
  then show ?thesis unfolding quiet_ex by blast
qed

lemma poll_preserves:
  assumes step: "\<And>s. P s \<Longrightarrow> P (snd (c s))" and init: "P s"
  shows "P (snd (poll n c s))"
  using init
proof (induction n arbitrary: s)
  case 0
  then show ?case by simp
next
  case (Suc n)
  obtain d e s1 where c: "c s = ((d, e), s1)" by (metis surj_pair)
  from step [OF Suc.prems] c have p1: "P s1" by simp
  have "snd (poll (Suc n) c s) = s1 \<or> snd (poll (Suc n) c s) = snd (poll n c s1)"
    using c by (cases e; cases d) simp_all
  then show ?case using p1 Suc.IH [OF p1] by auto
qed

lemma urlCondition_quiet: "quiet_extension (snd s) (snd (snd (urlCondition m s)))"
  by (cases s)
     (auto simp: urlCondition_def Let_def quiet_extension_def split: sum.splits)

lemma urlCondition_job:
  "(fst s)\<lparr>URL := u\<rparr> = job \<Longrightarrow> (fst (snd (urlCondition m s)))\<lparr>URL := u\<rparr> = job"
  by (cases s)
     (auto simp: urlCondition_def Let_def split: sum.splits)

lemma urlCondition_done:
  "urlCondition m s = ((True, None), (job', w')) \<Longrightarrow> URL job' \<noteq> []"
  by (cases s)
     (auto simp: urlCondition_def Let_def split: sum.splits if_splits)

lemmas launch_defs =
  launchJob_def launchStages_def submitJob_def createAndAwaitURL_def
  awaitCluster_def deliver_def waitForClusterReachable_def loadKubeconfigContents_def
  reachableCondition_def credentialCondition_def commandContents_def podGone_def
  setupCondition_def visibilityCondition_def urlCondition_def terminalPhase_def
  surfaceLastErr_def createFailure_def stampJob_def findTargetName_def
  OverrideJobEnvironment_def overrideContainer_def overrideEnvVar_def JobForConfig_def
  ObjectToUnstructured_def PollImmediate_def poll_numeral HasPrefix_def TrimPrefix_def
  Let_def

lemmas example_defs =
  example_manager_def example_job_def example_spec_def example_prowjob_def running_pod_def

lemma url_poll:
  assumes "PollImmediate m i tm (urlCondition m) (job, w) = (x, (job', w'))"
  shows "job'\<lparr>URL := URL job\<rparr> = job"
    and "quiet_extension w w'"
    and "x = None \<Longrightarrow> URL job' \<noteq> []"
proof -
  define n where "n = Suc (ticks m i tm)"
  have p: "poll n (urlCondition m) (job, w) = (x, (job', w'))"
    using assms by (simp add: PollImmediate_def n_def)
  have "(fst (snd (poll n (urlCondition m) (job, w))))\<lparr>URL := URL job\<rparr> = job"
    by (rule poll_preserves [where P = "\<lambda>s. (fst s)\<lparr>URL := URL job\<rparr> = job"])
       (simp_all add: urlCondition_job)
  then show "job'\<lparr>URL := URL job\<rparr> = job" by (simp add: p)
  have "quiet_extension (snd (job, w)) (snd (snd (poll n (urlCondition m) (job, w))))"
    by (rule poll_rel [where R = "\<lambda>s s'. quiet_extension (snd s) (snd s')"])
       (auto intro: quiet_refl quiet_trans urlCondition_quiet)
  then show "quiet_extension w w'" by (simp add: p)
  show "URL job' \<noteq> []" if "x = None"
  proof -
    from p that have "poll n (urlCondition m) (job, w) = (None, (job', w'))" by simp
    then have "\<exists>s0. urlCondition m s0 = ((True, None), (job', w'))" by (rule poll_success)
    then obtain s0 where "urlCondition m s0 = ((True, None), (job', w'))" ..
    then show ?thesis by (rule urlCondition_done)
  qed
qed

text \<open>What \<open>createAndAwaitURL\<close> and \<open>submitJob\<close> can return.\<close>

lemma createAndAwaitURL_cases:
  obtains (refused) err where
      "createAndAwaitURL m ns t pj job w =
         Inl (Some err, job, w @ [ProwCreate (prowNamespace m) (ObjectToUnstructured pj)])"
      "createFailure (prowClient_Create m w (prowNamespace m) (ObjectToUnstructured pj)) = Some err"
  | (nourl) err job' w' where
      "createAndAwaitURL m ns t pj job w =
         Inl (Some (Errorf (''did not retrieve job url due to an error: '' @ Error err)),
              job', w')"
      "job'\<lparr>URL := URL job\<rparr> = job" "quiet_extension w w'"
  | (url) job' w' where
      "createAndAwaitURL m ns t pj job w = Inr (ns, t, job', w')"
      "job'\<lparr>URL := URL job\<rparr> = job" "URL job' \<noteq> []" "quiet_extension w w'"
proof (cases "createFailure (prowClient_Create m w (prowNamespace m) (ObjectToUnstructured pj))")
  case (Some err)
  then have "createAndAwaitURL m ns t pj job w =
         Inl (Some err, job, w @ [ProwCreate (prowNamespace m) (ObjectToUnstructured pj)])"
    by (simp add: createAndAwaitURL_def Let_def)
  then show ?thesis using Some by (rule refused)
next
  case None
  define w2 where "w2 = w @ [ProwCreate (prowNamespace m) (ObjectToUnstructured pj),
                  Log (''prow job '' @ Name job @ '' launched to target namespace '' @ ns)]"
  obtain x job' w3 where
    p: "PollImmediate m 10 (15 * 60) (urlCondition m) (job, w2) = (x, (job', w3))"
    by (metis surj_pair)
  note u = url_poll [OF p]
  have "quiet_extension w w2"
    unfolding w2_def by (rule quiet_append [OF quiet_refl]) simp
  then have q: "quiet_extension w w3" using u(2) by (rule quiet_trans)
  show ?thesis
  proof (cases x)
    case None': None
    with None p have "createAndAwaitURL m ns t pj job w = Inr (ns, t, job', w3)"
      by (simp add: createAndAwaitURL_def Let_def w2_def)
    then show ?thesis using u(1) u(3) [OF None'] q by (rule url)
  next
    case (Some err)
    with None p have "createAndAwaitURL m ns t pj job w =
        Inl (Some (Errorf (''did not retrieve job url due to an error: '' @ Error err)),
             job', w3)"
      by (simp add: createAndAwaitURL_def Let_def w2_def)
    then show ?thesis using u(1) q by (rule nourl)
  qed
qed

lemma JobForConfig_trace: "snd (JobForConfig m w n) = w @ [LoadConfig]"
  by (simp add: JobForConfig_def split: option.splits)

lemma submitJob_cases:
  obtains (returned) r job' w' where
      "submitJob m job w = Inl (r, job', w')"
      "job'\<lparr>URL := URL job\<rparr> = job" "quiet_extension w w'"
  | (url) ns t job' w' where
      "submitJob m job w = Inr (ns, t, job', w')"
      "job'\<lparr>URL := URL job\<rparr> = job" "URL job' \<noteq> []" "quiet_extension w w'"
proof (cases "Credentials job \<noteq> [] \<and> PasswordSnippet job \<noteq> []")
  case True
  then have "submitJob m job w = Inl (None, job, w)" by (simp add: submitJob_def)
  then show ?thesis by (rule returned) (simp_all add: quiet_refl)
next
  case False
  then have guard: "\<not> (length (Credentials job) > 0 \<and> length (PasswordSnippet job) > 0)"
    by simp
  define ns where "ns = ''ci-ln-'' @ namespaceSafeHash [Name job]"
  obtain pjr w1 where jc: "JobForConfig m w (JobName job) = (pjr, w1)" by (metis surj_pair)
  have w1: "w1 = w @ [LoadConfig]" using JobForConfig_trace [of m w "JobName job"] jc by simp
  have q1: "quiet_extension w w1"
    unfolding w1 by (rule quiet_append [OF quiet_refl]) simp
  show ?thesis
  proof (cases pjr)
    case (Inl err)
    have "submitJob m job w = Inl (Some err, job, w1)"
      unfolding submitJob_def using jc Inl by (simp only: guard if_False Let_def prod.case sum.case)
    then show ?thesis by (rule returned) (simp_all add: q1)
  next
    case (Inr pj)
    show ?thesis
    proof (cases "findTargetName (spec_PodSpec (pj_Spec pj))")
      case (Inl err)
      have "submitJob m job w = Inl (Some err, job, w1)"
        unfolding submitJob_def using jc Inr Inl
        by (simp only: guard if_False Let_def prod.case sum.case)
      then show ?thesis by (rule returned) (simp_all add: q1)
    next
      case t: (Inr targetPodName)
      define img where
        "img = (if length (UpgradeImage job) > 0 then UpgradeImage job else InstallImage job)"
      define ini where
        "ini = (if length (UpgradeImage job) > 0 then InstallImage job else [])"
      show ?thesis
      proof (cases "OverrideJobEnvironment (pj_Spec (stampJob m job ns pj)) img ini ns")
        case None
        have "submitJob m job w = Inl (Some (Panic ''nil pointer dereference''), job, w1)"
          unfolding submitJob_def using jc Inr t None [unfolded ns_def img_def ini_def]
          by (simp only: guard if_False Let_def prod.case sum.case option.case)
        then show ?thesis by (rule returned) (simp_all add: q1)
      next
        case (Some spec)
        have r: "submitJob m job w =
                 createAndAwaitURL m ns targetPodName ((stampJob m job ns pj)\<lparr>pj_Spec := spec\<rparr>)
                   job w1"
          unfolding submitJob_def using jc Inr t Some [unfolded ns_def img_def ini_def]
          by (simp only: guard if_False Let_def prod.case sum.case option.case ns_def)
        show ?thesis
        proof (cases rule: createAndAwaitURL_cases
            [of m ns targetPodName "(stampJob m job ns pj)\<lparr>pj_Spec := spec\<rparr>" job w1])
          case (refused err)
          have "quiet_extension w
                  (w1 @ [ProwCreate (prowNamespace m)
                           (ObjectToUnstructured ((stampJob m job ns pj)\<lparr>pj_Spec := spec\<rparr>))])"
            by (rule quiet_append [OF q1]) simp
          with refused(1) r show ?thesis by (intro returned [of "Some err" job]) simp_all
        next
          case (nourl err job' w')
          from nourl(3) have "quiet_extension w w'" by (rule quiet_trans [OF q1])
          with nourl r show ?thesis by (intro returned [of _ job' w']) simp_all
        next
          case (url job' w')
          from url(4) have "quiet_extension w w'" by (rule quiet_trans [OF q1])
          with url r show ?thesis by (intro that(2) [of ns targetPodName job' w']) simp_all
        qed
      qed
    qed
  qed
qed

section \<open>Properties of the orchestrator\<close>

text \<open>
  C1. A request whose credential artifact and connection snippet are both non-empty makes
  \<open>launchJob\<close> return nil at once: the request is returned as it was and the trace of
  calls is the one it started with, so no configuration was loaded, nothing was submitted,
  polled, written or logged.
\<close>

theorem launchJob_already_fulfilled:
  "Credentials job \<noteq> [] \<Longrightarrow> PasswordSnippet job \<noteq> [] \<Longrightarrow> launchJob m job w = (None, job, w)"
  by (simp add: launchJob_def launchStages_def submitJob_def)

theorem launchJob_already_fulfilled_witness:
  "launchJob example_manager
     (example_job\<lparr>Credentials := ''apiVersion: v1'', PasswordSnippet := ''Login''\<rparr>) []
   = (None, example_job\<lparr>Credentials := ''apiVersion: v1'', PasswordSnippet := ''Login''\<rparr>, [])"
  using launchJob_already_fulfilled
    [of "example_job\<lparr>Credentials := ''apiVersion: v1'', PasswordSnippet := ''Login''\<rparr>"
        example_manager "[]"]
  by simp

text \<open>
  C10. When the mode of the request is not \<open>launch\<close>, \<open>launchJob\<close> is over with
  \<open>submitJob\<close>: it returns what \<open>submitJob\<close> returned, or nil with the request and the
  trace as they are once the URL poll has succeeded (the URL is then non-empty and is the
  only field of the request that changed). The credential artifact and the connection
  snippet are what they were before the call, and no call of a later stage (pod fetch,
  remote command, log read, reachability probe, patch) was added to the trace.
\<close>

theorem launchJob_not_launch_mode:
  assumes "Mode job \<noteq> ''launch''"
  shows "launchJob m job w =
           (case submitJob m job w of
              Inl returned \<Rightarrow> returned
            | Inr (ns, t, job', w') \<Rightarrow> (None, job', w')) \<and>
         (\<forall>ns t job' w'. submitJob m job w = Inr (ns, t, job', w') \<longrightarrow>
            URL job' \<noteq> [] \<and> job'\<lparr>URL := URL job\<rparr> = job) \<and>
         Credentials (fst (snd (launchJob m job w))) = Credentials job \<and>
         PasswordSnippet (fst (snd (launchJob m job w))) = PasswordSnippet job \<and>
         (\<exists>new. snd (snd (launchJob m job w)) = w @ new \<and>
                (\<forall>c\<in>set new. \<not> laterStageCall c))"
proof -
  have mode: "Mode j = Mode job" if "j\<lparr>URL := URL job\<rparr> = job" for j
  proof -
    have "Mode (j\<lparr>URL := URL job\<rparr>) = Mode job" using that by simp
    then show ?thesis by simp
  qed
  have cred: "Credentials j = Credentials job \<and> PasswordSnippet j = PasswordSnippet job"
    if "j\<lparr>URL := URL job\<rparr> = job" for j
  proof -
    have "Credentials (j\<lparr>URL := URL job\<rparr>) = Credentials job"
      "PasswordSnippet (j\<lparr>URL := URL job\<rparr>) = PasswordSnippet job"
      using that by simp_all
    then show ?thesis by simp
  qed
  show ?thesis
  proof (cases rule: submitJob_cases [of m job w])
    case (returned r j w')
    have l: "launchJob m job w = (r, j, w')"
      using returned(1) by (simp add: launchJob_def launchStages_def)
    from returned(3) have "\<exists>new. w' = w @ new \<and> (\<forall>c\<in>set new. \<not> laterStageCall c)"
      by (simp add: quiet_ex)
    with l returned(1) cred [OF returned(2)] show ?thesis by simp
  next
    case (url ns t j w')
    have "Mode j \<noteq> ''launch''" using mode [OF url(2)] assms by simp
    then have l: "launchJob m job w = (None, j, w')"
      using url(1) by (simp add: launchJob_def launchStages_def awaitCluster_def)
    from url(4) have "\<exists>new. w' = w @ new \<and> (\<forall>c\<in>set new. \<not> laterStageCall c)"
      by (simp add: quiet_ex)
    with l url(1) url(2) url(3) cred [OF url(2)] show ?thesis by simp
  qed
qed

theorem launchJob_not_launch_mode_witness:
  "fst (launchJob example_manager (example_job\<lparr>Mode := ''upgrade''\<rparr>) []) = None \<and>
   Credentials (fst (snd (launchJob example_manager (example_job\<lparr>Mode := ''upgrade''\<rparr>) []))) = [] \<and>
   PasswordSnippet (fst (snd (launchJob example_manager (example_job\<lparr>Mode := ''upgrade''\<rparr>) []))) = []"
proof -
  have h: "Mode (example_job\<lparr>Mode := ''upgrade''\<rparr>) \<noteq> ''launch''" by simp
  have s: "\<exists>ns t job' w'. submitJob example_manager (example_job\<lparr>Mode := ''upgrade''\<rparr>) [] =
             Inr (ns, t, job', w')"
    by (simp add: launch_defs example_defs)
  have c: "Credentials (example_job\<lparr>Mode := ''upgrade''\<rparr>) = []"
    "PasswordSnippet (example_job\<lparr>Mode := ''upgrade''\<rparr>) = []"
    by (simp_all add: example_job_def)
  show ?thesis
    using launchJob_not_launch_mode [OF h, of example_manager "[]"] s c by auto
qed

lemma example_run_succeeds:
  "fst (launchJob example_manager example_job []) = None"
  by (simp add: launchJob_def launchStages_def submitJob_def createAndAwaitURL_def
      awaitCluster_def deliver_def waitForClusterReachable_def loadKubeconfigContents_def
      reachableCondition_def credentialCondition_def commandContents_def podGone_def
      setupCondition_def visibilityCondition_def urlCondition_def terminalPhase_def
      surfaceLastErr_def createFailure_def stampJob_def findTargetName_def
      OverrideJobEnvironment_def overrideContainer_def overrideEnvVar_def JobForConfig_def
      ObjectToUnstructured_def PollImmediate_def poll_numeral HasPrefix_def TrimPrefix_def
      example_manager_def example_job_def example_spec_def example_prowjob_def
      running_pod_def Let_def)

section \<open>Later stages, submission and the example request\<close>

lemma poll_prefix:
  assumes "\<And>s. prefix (tr s) (tr (snd (c s)))"
  shows "prefix (tr s) (tr (snd (poll n c s)))"
  by (rule poll_rel [where R = "\<lambda>s s'. prefix (tr s) (tr s')"])
     (auto intro: assms prefix_order.trans)

lemma visibilityCondition_prefix: "prefix (snd s) (snd (snd (visibilityCondition m job s)))"
  by (cases s) (auto simp: visibilityCondition_def Let_def split: sum.splits)

lemma setupCondition_prefix:
  "prefix (snd (snd s)) (snd (snd (snd (setupCondition m ns t s))))"
  by (cases s)
     (auto simp: setupCondition_def Let_def split: sum.splits prod.splits option.splits)

lemma commandContents_prefix: "prefix w (snd (commandContents m w ns n c cmd))"
  by (auto simp: commandContents_def split: option.splits sum.splits)

lemma credentialCondition_prefix:
  "prefix (snd s) (snd (snd (credentialCondition m ns t s)))"
proof -
  obtain k w where s: "s = (k, w)" by (metis surj_pair)
  obtain contents r w1 where
    c: "commandContents m w ns t ''test'' [''cat'', ''/tmp/admin.kubeconfig''] = ((contents, r), w1)"
    by (metis surj_pair)
  have "prefix w w1" using commandContents_prefix [of w m ns t "''test''"] c by (metis snd_conv)
  then have "prefix w (w1 @ x)" for x by (rule prefix_prefix)
  then show ?thesis
    using \<open>prefix w w1\<close> by (cases r) (simp_all add: credentialCondition_def s c)
qed

lemma reachableCondition_prefix: "prefix w (snd (reachableCondition m host w))"
  by (simp add: reachableCondition_def split: option.splits)

lemma PollImmediate_prefix:
  assumes "\<And>s. prefix (tr s) (tr (snd (c s)))"
    and "PollImmediate m i tm c s = (x, s')"
  shows "prefix (tr s) (tr s')"
proof -
  have "prefix (tr s) (tr (snd (poll (Suc (ticks m i tm)) c s)))"
    using assms(1) by (rule poll_prefix)
  then show ?thesis using assms(2) by (simp add: PollImmediate_def)
qed

lemma waitForClusterReachable_prefix: "prefix w (snd (waitForClusterReachable m k w))"
proof (cases "loadKubeconfigContents m k")
  case (Inl err)
  then show ?thesis by (simp add: waitForClusterReachable_def)
next
  case (Inr cfg)
  show ?thesis
  proof (cases "clientset_NewForConfig m cfg")
    case (Some msg)
    with Inr show ?thesis by (simp add: waitForClusterReachable_def)
  next
    case None
    obtain x w' where
      p: "PollImmediate m 15 (20 * 60) (reachableCondition m cfg) w = (x, w')"
      by (metis surj_pair)
    have "prefix w w'"
      using PollImmediate_prefix [where tr = "\<lambda>w. w", OF reachableCondition_prefix p] .
    with Inr None p show ?thesis by (simp add: waitForClusterReachable_def)
  qed
qed

lemma credentialCondition_done:
  "credentialCondition m ns t s = ((True, None), (k, w')) \<Longrightarrow> k \<noteq> []"
  by (cases s)
     (auto simp: credentialCondition_def split: prod.splits option.splits if_splits)

lemma credential_poll_success:
  assumes "PollImmediate m i tm (credentialCondition m ns t) s = (None, (k, w'))"
  shows "k \<noteq> []"
proof -
  define n where "n = Suc (ticks m i tm)"
  have "poll n (credentialCondition m ns t) s = (None, (k, w'))"
    using assms by (simp add: PollImmediate_def n_def)
  then have "\<exists>s0. credentialCondition m ns t s0 = ((True, None), (k, w'))"
    by (rule poll_success)
  then obtain s0 where "credentialCondition m ns t s0 = ((True, None), (k, w'))" ..
  then show ?thesis by (rule credentialCondition_done)
qed

lemma awaitCluster_cases:
  obtains (returned) r w' where
      "awaitCluster m ns t job w = Inl (r, job, w')" "prefix w w'"
  | (credentials) k w' where
      "awaitCluster m ns t job w = Inr (ns, t, k, job, w')" "k \<noteq> []" "prefix w w'"
      "Mode job = ''launch''"
proof (cases "Mode job \<noteq> ''launch''")
  case True
  then have "awaitCluster m ns t job w = Inl (None, job, w)" by (simp add: awaitCluster_def)
  then show ?thesis by (rule returned) simp
next
  case False
  then have mode: "Mode job = ''launch''" by simp
  obtain x1 seen w1 where
    p1: "PollImmediate m 5 (15 * 60) (visibilityCondition m job) (False, w) = (x1, (seen, w1))"
    by (metis surj_pair)
  have q1: "prefix w w1"
    using PollImmediate_prefix [where tr = snd, OF visibilityCondition_prefix p1] by simp
  show ?thesis
  proof (cases x1)
    case (Some err)
    with mode p1 have "awaitCluster m ns t job w =
        Inl (Some (Errorf (''unable to check launch status: '' @ Error err)), job, w1)"
      by (simp add: awaitCluster_def)
    then show ?thesis using q1 by (rule returned)
  next
    case n1: None
    define w2 where "w2 = w1 @ [Log (''waiting for setup container in pod '' @ ns @ ''/'' @
                                t @ '' to complete'')]"
    have q2: "prefix w w2" unfolding w2_def using q1 by (rule prefix_prefix)
    obtain x2 seen' lastErr w3 where
      p2: "PollImmediate m 5 (45 * 60) (setupCondition m ns t) (False, None, w2) =
             (x2, (seen', lastErr, w3))"
      by (metis surj_pair)
    have "prefix w2 w3"
      using PollImmediate_prefix [where tr = "\<lambda>s. snd (snd s)", OF setupCondition_prefix p2]
      by simp
    with q2 have q3: "prefix w w3" by (rule prefix_order.trans)
    show ?thesis
    proof (cases x2)
      case (Some err)
      with mode p1 n1 p2 have "awaitCluster m ns t job w =
          Inl (Some (Errorf (''pod never became available: '' @
                             Error (surfaceLastErr lastErr err))), job, w3)"
        by (simp add: awaitCluster_def w2_def)
      then show ?thesis using q3 by (rule returned)
    next
      case n2: None
      define w4 where "w4 = w3 @ [Log ''trying to grab the kubeconfig from launched pod'']"
      have q4: "prefix w w4" unfolding w4_def using q3 by (rule prefix_prefix)
      obtain x3 k w5 where
        p3: "PollImmediate m 30 (10 * 60) (credentialCondition m ns t) ([], w4) = (x3, (k, w5))"
        by (metis surj_pair)
      have "prefix w4 w5"
        using PollImmediate_prefix [where tr = snd, OF credentialCondition_prefix p3] by simp
      with q4 have q5: "prefix w w5" by (rule prefix_order.trans)
      show ?thesis
      proof (cases x3)
        case (Some err)
        with mode p1 n1 p2 n2 p3 have "awaitCluster m ns t job w =
            Inl (Some (Errorf (''could not retrieve kubeconfig from pod: '' @ Error err)),
                 job, w5)"
          by (simp add: awaitCluster_def w2_def w4_def)
        then show ?thesis using q5 by (rule returned)
      next
        case n3: None
        with mode p1 n1 p2 n2 p3 have a: "awaitCluster m ns t job w = Inr (ns, t, k, job, w5)"
          by (simp add: awaitCluster_def w2_def w4_def)
        have "k \<noteq> []" using p3 [unfolded n3] by (rule credential_poll_success)
        with a show ?thesis using q5 mode by (rule credentials)
      qed
    qed
  qed
qed

lemma deliver_unreachable:
  assumes "waitForClusterReachable m k w = (Some err, w1)"
  shows "deliver m ns t k job w =
     (Some (Errorf (''cluster did not become reachable: '' @ Error err)),
      job\<lparr>Credentials := [],
          PasswordSnippet := reFixLines_ReplaceAllString
            (fst (coreClient_GetLogs m
               (w1 @ [Log (''error: unable to wait for the cluster to start: '' @ Error err)])
               ns t ''setup'' 2))\<rparr>,
      w1 @ [Log (''error: unable to wait for the cluster to start: '' @ Error err),
            PodGetLogs ns t ''setup'' 2] @
        (case snd (coreClient_GetLogs m
               (w1 @ [Log (''error: unable to wait for the cluster to start: '' @ Error err)])
               ns t ''setup'' 2) of
           Some e \<Rightarrow> [Log ''error: unable to get setup logs'']
         | None \<Rightarrow> []) @
        [ProwPatch (prowNamespace m) (Name job) channelPatch] @
        (case prowClient_Patch m
                (w1 @ [Log (''error: unable to wait for the cluster to start: '' @ Error err),
                       PodGetLogs ns t ''setup'' 2] @
                   (case snd (coreClient_GetLogs m
                       (w1 @ [Log (''error: unable to wait for the cluster to start: '' @
                                   Error err)])
                       ns t ''setup'' 2) of
                      Some e \<Rightarrow> [Log ''error: unable to get setup logs'']
                    | None \<Rightarrow> []))
                (prowNamespace m) (Name job) channelPatch of
           Some e \<Rightarrow>
             [Log (''error: unable to clear channel annotation from prow job: '' @
                   api_message e)]
         | None \<Rightarrow> []))"
  using assms by (simp add: deliver_def Let_def split: prod.splits)

lemma deliver_reachable:
  assumes "waitForClusterReachable m k w = (None, w1)"
  shows "fst (deliver m ns t k job w) = None \<and>
         Credentials (fst (snd (deliver m ns t k job w))) = k"
  using assms by (simp add: deliver_def Let_def split: prod.splits)

lemma deliver_prefix: "prefix w (snd (snd (deliver m ns t k job w)))"
proof -
  obtain r w1 where p: "waitForClusterReachable m k w = (r, w1)" by (metis surj_pair)
  have "prefix w w1" using waitForClusterReachable_prefix [of w m k] p by simp
  then have "prefix w (w1 @ x)" for x by (rule prefix_prefix)
  then show ?thesis
    by (cases r) (simp_all add: deliver_def Let_def p split: prod.splits)
qed

lemma launchJob_after_submit:
  "prefix (submit_trace (submitJob m job w)) (snd (snd (launchJob m job w)))"
proof (cases "submitJob m job w")
  case (Inl returned)
  then show ?thesis
    by (cases returned) (simp add: launchJob_def launchStages_def)
next
  case (Inr cont)
  obtain ns t j w' where c: "cont = (ns, t, j, w')" by (metis surj_pair)
  show ?thesis
  proof (cases rule: awaitCluster_cases [of m ns t j w'])
    case (returned r w'')
    with Inr c show ?thesis by (simp add: launchJob_def launchStages_def)
  next
    case (credentials k w'')
    have "prefix w'' (snd (snd (deliver m ns t k j w'')))" by (rule deliver_prefix)
    with credentials(3) have "prefix w' (snd (snd (deliver m ns t k j w'')))"
      by (rule prefix_order.trans)
    with Inr c credentials(1) show ?thesis by (simp add: launchJob_def launchStages_def)
  qed
qed

text \<open>
  C2. When the stages up to the credential poll have succeeded, the retrieved kubeconfig
  is non-empty. If the provisioned cluster then answers the probe, \<open>launchJob\<close> returns
  nil and the request carries the kubeconfig as its credential artifact. If the probe
  fails with \<open>err\<close>, \<open>launchJob\<close> returns "cluster did not become reachable: err",
  the credential artifact of the request is the empty string, the connection snippet is
  taken from the setup log read after the failure, and after the probe the trace goes on
  with the log read and, later, the patch that clears the channel annotation.
\<close>

theorem launchJob_unreachable_cluster:
  assumes "launchStages m job w = Inr (ns, t, kubeconfig, job', w')"
  shows "kubeconfig \<noteq> [] \<and>
     (\<forall>w1. waitForClusterReachable m kubeconfig w' = (None, w1) \<longrightarrow>
        fst (launchJob m job w) = None \<and>
        Credentials (fst (snd (launchJob m job w))) = kubeconfig) \<and>
     (\<forall>err w1. waitForClusterReachable m kubeconfig w' = (Some err, w1) \<longrightarrow>
        fst (launchJob m job w) =
          Some (Errorf (''cluster did not become reachable: '' @ Error err)) \<and>
        Credentials (fst (snd (launchJob m job w))) = [] \<and>
        PasswordSnippet (fst (snd (launchJob m job w))) =
          reFixLines_ReplaceAllString
            (fst (coreClient_GetLogs m
               (w1 @ [Log (''error: unable to wait for the cluster to start: '' @ Error err)])
               ns t ''setup'' 2)) \<and>
        (\<exists>a b. snd (snd (launchJob m job w)) =
           w1 @ [Log (''error: unable to wait for the cluster to start: '' @ Error err),
                 PodGetLogs ns t ''setup'' 2] @ a @
           [ProwPatch (prowNamespace m) (Name job') channelPatch] @ b))"
proof -
  have l: "launchJob m job w = deliver m ns t kubeconfig job' w'"
    using assms by (simp add: launchJob_def)
  have k: "kubeconfig \<noteq> []"
  proof (cases "submitJob m job w")
    case (Inl returned)
    with assms show ?thesis by (simp add: launchStages_def)
  next
    case (Inr cont)
    obtain ns0 t0 j0 w0 where c: "cont = (ns0, t0, j0, w0)" by (metis surj_pair)
    with assms Inr have a: "awaitCluster m ns0 t0 j0 w0 = Inr (ns, t, kubeconfig, job', w')"
      by (simp add: launchStages_def)
    show ?thesis
      by (cases rule: awaitCluster_cases [of m ns0 t0 j0 w0]) (use a in simp_all)
  qed
  have ok: "fst (launchJob m job w) = None \<and>
            Credentials (fst (snd (launchJob m job w))) = kubeconfig"
    if "waitForClusterReachable m kubeconfig w' = (None, w1)" for w1
    unfolding l using that by (rule deliver_reachable)
  have bad: "fst (launchJob m job w) =
          Some (Errorf (''cluster did not become reachable: '' @ Error err)) \<and>
        Credentials (fst (snd (launchJob m job w))) = [] \<and>
        PasswordSnippet (fst (snd (launchJob m job w))) =
          reFixLines_ReplaceAllString
            (fst (coreClient_GetLogs m
               (w1 @ [Log (''error: unable to wait for the cluster to start: '' @ Error err)])
               ns t ''setup'' 2)) \<and>
        (\<exists>a b. snd (snd (launchJob m job w)) =
           w1 @ [Log (''error: unable to wait for the cluster to start: '' @ Error err),
                 PodGetLogs ns t ''setup'' 2] @ a @
           [ProwPatch (prowNamespace m) (Name job') channelPatch] @ b)"
    if "waitForClusterReachable m kubeconfig w' = (Some err, w1)" for err w1
    unfolding l deliver_unreachable [OF that] by (simp del: append.simps) blast
  from k ok bad show ?thesis by blast
qed

lemma unreachable_probe:
  "fst (waitForClusterReachable unreachable_manager ''apiVersion: v1'' w) = Some ErrWaitTimeout"
  by (simp add: waitForClusterReachable_def loadKubeconfigContents_def reachableCondition_def
      PollImmediate_def poll_numeral unreachable_manager_def example_manager_def)

theorem launchJob_unreachable_cluster_witness:
  "fst (launchJob unreachable_manager example_job []) =
     Some (Errorf ''cluster did not become reachable: timed out waiting for the condition'') \<and>
   Credentials (fst (snd (launchJob unreachable_manager example_job []))) = []"
proof -
  have "\<exists>ns t j w'. launchStages unreachable_manager example_job [] =
          Inr (ns, t, ''apiVersion: v1'', j, w')"
    by (simp add: launch_defs example_defs unreachable_manager_def)
  then obtain ns t j w' where
    h: "launchStages unreachable_manager example_job [] = Inr (ns, t, ''apiVersion: v1'', j, w')"
    by blast
  obtain w1 where
    r: "waitForClusterReachable unreachable_manager ''apiVersion: v1'' w' =
          (Some ErrWaitTimeout, w1)"
    using unreachable_probe [of w'] by (metis prod.collapse)
  show ?thesis
    using launchJob_unreachable_cluster [OF h] r by simp
qed

lemma setupCondition_lastErr:
  assumes "setupCondition m ns t (seen, None, w) = ((d, e), (seen', lastErr, w'))"
  shows "lastErr = None \<or> (\<exists>a. lastErr = Some (Api a) \<and> e = Some (Api a))"
  using assms
  by (auto simp: setupCondition_def Let_def split: sum.splits if_splits prod.splits option.splits)

lemma setup_poll_lastErr:
  "poll n (setupCondition m ns t) (seen, None, w) = (r, (seen', lastErr, w')) \<Longrightarrow>
   lastErr = None \<or> (\<exists>a. lastErr = Some (Api a) \<and> r = Some (Api a))"
proof (induction n arbitrary: seen w)
  case 0
  then show ?case by simp
next
  case (Suc n)
  obtain d e s1 l1 w1 where
    c: "setupCondition m ns t (seen, None, w) = ((d, e), (s1, l1, w1))"
    by (metis surj_pair)
  note le = setupCondition_lastErr [OF c]
  show ?case
  proof (cases e)
    case (Some x)
    with Suc.prems c have "r = Some x" "lastErr = l1" by (cases d; simp)+
    with le Some show ?thesis by auto
  next
    case None
    with le have l1: "l1 = None" by auto
    show ?thesis
    proof (cases d)
      case True
      with Suc.prems c None l1 show ?thesis by simp
    next
      case False
      with Suc.prems c None l1 have
        "poll n (setupCondition m ns t) (s1, None, w1) = (r, (seen', lastErr, w'))"
        by simp
      then show ?thesis by (rule Suc.IH)
    qed
  qed
qed

lemma setup_timeout_has_no_detail:
  assumes "PollImmediate m i tm (setupCondition m ns t) (seen, None, w) =
             (Some err, (seen', lastErr, w'))"
  shows "surfaceLastErr lastErr err = err \<and> (err = ErrWaitTimeout \<longrightarrow> lastErr = None)"
proof -
  define n where "n = Suc (ticks m i tm)"
  have "poll n (setupCondition m ns t) (seen, None, w) = (Some err, (seen', lastErr, w'))"
    using assms by (simp add: PollImmediate_def n_def)
  then have "lastErr = None \<or> (\<exists>a. lastErr = Some (Api a) \<and> Some err = Some (Api a))"
    by (rule setup_poll_lastErr)
  then show ?thesis by (auto simp: surfaceLastErr_def)
qed



lemma findTargetName_PodSpec:
  "findTargetName ps = Inr t \<Longrightarrow> \<exists>p. ps = Some p"
  by (cases ps) (simp_all add: findTargetName_def)

lemma stampJob_Spec: "pj_Spec (stampJob m job ns pj) = pj_Spec pj"
  by (simp add: stampJob_def Let_def)

lemma submitJob_submits:
  assumes "Credentials job = [] \<or> PasswordSnippet job = []"
    and "JobForConfig m w (JobName job) = (Inr pj, w1)"
    and "findTargetName (spec_PodSpec (pj_Spec pj)) = Inr t"
    and "spec_PodSpec (pj_Spec pj) = Some ps"
  shows "submitJob m job w =
     createAndAwaitURL m (''ci-ln-'' @ namespaceSafeHash [Name job]) t
       ((stampJob m job (''ci-ln-'' @ namespaceSafeHash [Name job]) pj)
          \<lparr>pj_Spec := (pj_Spec pj)\<lparr>spec_PodSpec := Some (ps\<lparr>Containers :=
             map (overrideContainer
                    (if length (UpgradeImage job) > 0 then UpgradeImage job
                     else InstallImage job)
                    (if length (UpgradeImage job) > 0 then InstallImage job else [])
                    (''ci-ln-'' @ namespaceSafeHash [Name job]))
                 (Containers ps)\<rparr>)\<rparr>\<rparr>)
       job w1"
proof -
  have guard: "\<not> (length (Credentials job) > 0 \<and> length (PasswordSnippet job) > 0)"
    using assms(1) by auto
  have target: "findTargetName (Some ps) = Inr t"
    using assms(3) assms(4) by simp
  show ?thesis
    unfolding submitJob_def
    by (simp only: guard if_False Let_def assms(2) target prod.case sum.case stampJob_Spec
        OverrideJobEnvironment_def assms(4) option.case)
qed

lemma url_first_attempt:
  assumes "PollImmediate m i tm (urlCondition m) (job, w) = (x, (job', w'))"
  shows "prefix (w @ [ProwGet (prowNamespace m) (Name job)]) w'"
proof -
  obtain d e j1 w1 where c: "urlCondition m (job, w) = ((d, e), (j1, w1))"
    by (metis surj_pair)
  have w1: "w1 = w @ [ProwGet (prowNamespace m) (Name job)]"
    using c by (auto simp: urlCondition_def Let_def split: sum.splits if_splits)
  have step: "prefix (snd s) (snd (snd (urlCondition m s)))" for s
    by (cases s) (auto simp: urlCondition_def Let_def split: sum.splits)
  have rest: "prefix w1 (snd (snd (poll (ticks m i tm) (urlCondition m) (j1, w1))))"
    using poll_prefix [where tr = snd and c = "urlCondition m" and s = "(j1, w1)", OF step]
    by simp
  have "w' = w1 \<or> w' = snd (snd (poll (ticks m i tm) (urlCondition m) (j1, w1)))"
    using assms c by (cases e; cases d) (auto simp: PollImmediate_def)
  with rest show ?thesis unfolding w1 [symmetric] by auto
qed

lemma createAndAwaitURL_first_get:
  assumes "createFailure (prowClient_Create m w (prowNamespace m) (ObjectToUnstructured pj)) = None"
  shows "prefix (w @ [ProwCreate (prowNamespace m) (ObjectToUnstructured pj),
                    Log (''prow job '' @ Name job @ '' launched to target namespace '' @ ns),
                    ProwGet (prowNamespace m) (Name job)])
         (submit_trace (createAndAwaitURL m ns t pj job w))"
proof -
  define w2 where "w2 = w @ [ProwCreate (prowNamespace m) (ObjectToUnstructured pj),
                  Log (''prow job '' @ Name job @ '' launched to target namespace '' @ ns)]"
  obtain x job' w3 where
    p: "PollImmediate m 10 (15 * 60) (urlCondition m) (job, w2) = (x, (job', w3))"
    by (metis surj_pair)
  have f: "prefix (w2 @ [ProwGet (prowNamespace m) (Name job)]) w3"
    using p by (rule url_first_attempt)
  show ?thesis
    using assms p f by (cases x) (simp_all add: createAndAwaitURL_def Let_def w2_def)
qed

lemma createAndAwaitURL_prefix:
  "prefix (w @ [ProwCreate (prowNamespace m) (ObjectToUnstructured pj)])
     (submit_trace (createAndAwaitURL m ns t pj job w))"
proof (cases "createFailure (prowClient_Create m w (prowNamespace m) (ObjectToUnstructured pj))")
  case (Some err)
  then show ?thesis by (simp add: createAndAwaitURL_def Let_def)
next
  case None
  have "prefix (w @ [ProwCreate (prowNamespace m) (ObjectToUnstructured pj)])
          (w @ [ProwCreate (prowNamespace m) (ObjectToUnstructured pj),
                    Log (''prow job '' @ Name job @ '' launched to target namespace '' @ ns),
                    ProwGet (prowNamespace m) (Name job)])"
    by simp
  then show ?thesis
    using createAndAwaitURL_first_get [OF None] by (rule prefix_order.trans)
qed

lemma commandContents_create:
  "commandContents (m\<lparr>prowClient_Create := c\<rparr>) = commandContents m"
  by (auto simp: fun_eq_iff commandContents_def split: option.splits sum.splits)

lemma credentialCondition_create:
  "credentialCondition (m\<lparr>prowClient_Create := c\<rparr>) ns t s = credentialCondition m ns t s"
proof -
  obtain k w where s: "s = (k, w)" by (metis surj_pair)
  obtain contents r w1 where
    x: "commandContents m w ns t ''test'' [''cat'', ''/tmp/admin.kubeconfig''] =
          ((contents, r), w1)"
    by (metis surj_pair)
  show ?thesis
    by (cases r) (simp_all add: credentialCondition_def commandContents_create s x)
qed

lemma create_irrelevant:
  "urlCondition (m\<lparr>prowClient_Create := c\<rparr>) = urlCondition m"
  "visibilityCondition (m\<lparr>prowClient_Create := c\<rparr>) = visibilityCondition m"
  "setupCondition (m\<lparr>prowClient_Create := c\<rparr>) = setupCondition m"
  "credentialCondition (m\<lparr>prowClient_Create := c\<rparr>) = credentialCondition m"
  "reachableCondition (m\<lparr>prowClient_Create := c\<rparr>) = reachableCondition m"
  "loadKubeconfigContents (m\<lparr>prowClient_Create := c\<rparr>) = loadKubeconfigContents m"
  "JobForConfig (m\<lparr>prowClient_Create := c\<rparr>) = JobForConfig m"
  "stampJob (m\<lparr>prowClient_Create := c\<rparr>) = stampJob m"
  "PollImmediate (m\<lparr>prowClient_Create := c\<rparr>) i tm = PollImmediate m i tm"
proof -
  show "urlCondition (m\<lparr>prowClient_Create := c\<rparr>) = urlCondition m"
    by (auto simp: fun_eq_iff urlCondition_def Let_def split: sum.splits)
  show "visibilityCondition (m\<lparr>prowClient_Create := c\<rparr>) = visibilityCondition m"
    by (auto simp: fun_eq_iff visibilityCondition_def Let_def split: sum.splits)
  show "setupCondition (m\<lparr>prowClient_Create := c\<rparr>) = setupCondition m"
    by (auto simp: fun_eq_iff setupCondition_def Let_def split: sum.splits)
  show "credentialCondition (m\<lparr>prowClient_Create := c\<rparr>) = credentialCondition m"
    by (intro ext) (rule credentialCondition_create)
  show "reachableCondition (m\<lparr>prowClient_Create := c\<rparr>) = reachableCondition m"
    by (auto simp: fun_eq_iff reachableCondition_def split: option.splits)
  show "loadKubeconfigContents (m\<lparr>prowClient_Create := c\<rparr>) = loadKubeconfigContents m"
    by (auto simp: fun_eq_iff loadKubeconfigContents_def split: sum.splits)
  show "JobForConfig (m\<lparr>prowClient_Create := c\<rparr>) = JobForConfig m"
    by (auto simp: fun_eq_iff JobForConfig_def split: option.splits)
  show "stampJob (m\<lparr>prowClient_Create := c\<rparr>) = stampJob m"
    by (simp add: fun_eq_iff stampJob_def)
  show "PollImmediate (m\<lparr>prowClient_Create := c\<rparr>) i tm = PollImmediate m i tm"
    by (simp add: fun_eq_iff PollImmediate_def del: poll.simps)
qed

lemma waitForClusterReachable_create:
  "waitForClusterReachable (m\<lparr>prowClient_Create := c\<rparr>) = waitForClusterReachable m"
  by (auto simp: fun_eq_iff waitForClusterReachable_def create_irrelevant
      split: sum.splits option.splits)

lemma deliver_create:
  "deliver (m\<lparr>prowClient_Create := c\<rparr>) ns t k job w = deliver m ns t k job w"
proof -
  obtain r w1 where p: "waitForClusterReachable m k w = (r, w1)" by (metis surj_pair)
  show ?thesis
    by (cases r) (simp_all add: deliver_def Let_def waitForClusterReachable_create p)
qed

lemma awaitCluster_create:
  "awaitCluster (m\<lparr>prowClient_Create := c\<rparr>) ns t job w = awaitCluster m ns t job w"
  by (simp add: awaitCluster_def create_irrelevant del: poll.simps
      cong: option.case_cong prod.case_cong if_cong)

lemma create_irrelevant_later:
  "awaitCluster (m\<lparr>prowClient_Create := c\<rparr>) = awaitCluster m"
  "deliver (m\<lparr>prowClient_Create := c\<rparr>) = deliver m"
  by (simp_all add: fun_eq_iff awaitCluster_create deliver_create)

lemma createAndAwaitURL_already_exists:
  "IsAlreadyExists e \<Longrightarrow>
   createAndAwaitURL (m\<lparr>prowClient_Create := \<lambda>w ns u. Some e\<rparr>) ns t pj job w =
   createAndAwaitURL (m\<lparr>prowClient_Create := \<lambda>w ns u. None\<rparr>) ns t pj job w"
  by (simp add: createAndAwaitURL_def createFailure_def create_irrelevant Let_def)

text \<open>
  C8. Take a request that is not yet fulfilled and whose template resolves and names a
  target, and let the platform answer the create with the error \<open>e\<close>. If \<open>e\<close> is
  "already exists", \<open>launchJob\<close> does exactly what it does when the create succeeds, and
  the create is followed in the trace by the first fetch of the URL poll. Any other
  \<open>e\<close> is returned as the result of \<open>launchJob\<close>, the request is unchanged and the
  create is the last call.
\<close>

theorem create_already_exists:
  assumes "Credentials job = [] \<or> PasswordSnippet job = []"
    and "JobForConfig m w (JobName job) = (Inr pj, w1)"
    and "findTargetName (spec_PodSpec (pj_Spec pj)) = Inr t"
  shows
    "(IsAlreadyExists e \<longrightarrow>
        launchJob (m\<lparr>prowClient_Create := \<lambda>w ns u. Some e\<rparr>) job w =
        launchJob (m\<lparr>prowClient_Create := \<lambda>w ns u. None\<rparr>) job w \<and>
        (\<exists>u rest. snd (snd (launchJob (m\<lparr>prowClient_Create := \<lambda>w ns u. Some e\<rparr>) job w)) =
           w1 @ [ProwCreate (prowNamespace m) u,
                 Log (''prow job '' @ Name job @ '' launched to target namespace '' @
                      ''ci-ln-'' @ namespaceSafeHash [Name job]),
                 ProwGet (prowNamespace m) (Name job)] @ rest)) \<and>
     (\<not> IsAlreadyExists e \<longrightarrow>
        (\<exists>u. launchJob (m\<lparr>prowClient_Create := \<lambda>w ns u. Some e\<rparr>) job w =
           (Some (Api e), job, w1 @ [ProwCreate (prowNamespace m) u])))"
proof -
  let ?m1 = "m\<lparr>prowClient_Create := \<lambda>w ns u. Some e\<rparr>"
  let ?m0 = "m\<lparr>prowClient_Create := \<lambda>w ns u. None\<rparr>"
  let ?ns = "''ci-ln-'' @ namespaceSafeHash [Name job]"
  obtain ps where ps: "spec_PodSpec (pj_Spec pj) = Some ps"
    using findTargetName_PodSpec [OF assms(3)] by blast
  define PJ where "PJ = (stampJob m job ?ns pj)
          \<lparr>pj_Spec := (pj_Spec pj)\<lparr>spec_PodSpec := Some (ps\<lparr>Containers :=
             map (overrideContainer
                    (if length (UpgradeImage job) > 0 then UpgradeImage job
                     else InstallImage job)
                    (if length (UpgradeImage job) > 0 then InstallImage job else [])
                    ?ns)
                 (Containers ps)\<rparr>)\<rparr>\<rparr>"
  have j1: "JobForConfig ?m1 w (JobName job) = (Inr pj, w1)"
    and j0: "JobForConfig ?m0 w (JobName job) = (Inr pj, w1)"
    using assms(2) by (simp_all add: create_irrelevant)
  have s1: "submitJob ?m1 job w = createAndAwaitURL ?m1 ?ns t PJ job w1"
    using submitJob_submits [OF assms(1) j1 assms(3) ps]
    by (simp add: PJ_def create_irrelevant)
  have s0: "submitJob ?m0 job w = createAndAwaitURL ?m0 ?ns t PJ job w1"
    using submitJob_submits [OF assms(1) j0 assms(3) ps]
    by (simp add: PJ_def create_irrelevant)
  have exists: "launchJob ?m1 job w = launchJob ?m0 job w \<and>
        (\<exists>u rest. snd (snd (launchJob ?m1 job w)) =
           w1 @ [ProwCreate (prowNamespace m) u,
                 Log (''prow job '' @ Name job @ '' launched to target namespace '' @ ?ns),
                 ProwGet (prowNamespace m) (Name job)] @ rest)"
    if ae: "IsAlreadyExists e"
  proof
    have "submitJob ?m1 job w = submitJob ?m0 job w"
      unfolding s1 s0 using ae by (rule createAndAwaitURL_already_exists)
    then have eq: "submitJob ?m1 job w = submitJob ?m0 job w" .
    show "launchJob ?m1 job w = launchJob ?m0 job w"
    proof (cases "submitJob ?m0 job w")
      case (Inl returned)
      with eq show ?thesis by (simp add: launchJob_def launchStages_def)
    next
      case (Inr cont)
      obtain ns' t' j' w' where "cont = (ns', t', j', w')" by (metis surj_pair)
      with eq Inr show ?thesis
        by (simp add: launchJob_def launchStages_def create_irrelevant_later
            split: sum.splits)
    qed
    have "createFailure (prowClient_Create ?m1 w1 (prowNamespace ?m1) (ObjectToUnstructured PJ))
            = None"
      using ae by (simp add: createFailure_def)
    then have "prefix (w1 @ [ProwCreate (prowNamespace ?m1) (ObjectToUnstructured PJ),
                    Log (''prow job '' @ Name job @ '' launched to target namespace '' @ ?ns),
                    ProwGet (prowNamespace ?m1) (Name job)])
         (submit_trace (createAndAwaitURL ?m1 ?ns t PJ job w1))"
      by (rule createAndAwaitURL_first_get)
    then have "prefix (w1 @ [ProwCreate (prowNamespace ?m1) (ObjectToUnstructured PJ),
                    Log (''prow job '' @ Name job @ '' launched to target namespace '' @ ?ns),
                    ProwGet (prowNamespace ?m1) (Name job)])
         (snd (snd (launchJob ?m1 job w)))"
      using launchJob_after_submit [of ?m1 job w] unfolding s1 by (rule prefix_order.trans)
    then obtain rest where "snd (snd (launchJob ?m1 job w)) =
        (w1 @ [ProwCreate (prowNamespace ?m1) (ObjectToUnstructured PJ),
                    Log (''prow job '' @ Name job @ '' launched to target namespace '' @ ?ns),
                    ProwGet (prowNamespace ?m1) (Name job)]) @ rest"
      unfolding prefix_def by blast
    then have "snd (snd (launchJob ?m1 job w)) =
        w1 @ [ProwCreate (prowNamespace m) (ObjectToUnstructured PJ),
                    Log (''prow job '' @ Name job @ '' launched to target namespace '' @ ?ns),
                    ProwGet (prowNamespace m) (Name job)] @ rest"
      by simp
    then show "\<exists>u rest. snd (snd (launchJob ?m1 job w)) =
           w1 @ [ProwCreate (prowNamespace m) u,
                 Log (''prow job '' @ Name job @ '' launched to target namespace '' @ ?ns),
                 ProwGet (prowNamespace m) (Name job)] @ rest"
      by blast
  qed
  have other: "\<exists>u. launchJob ?m1 job w =
           (Some (Api e), job, w1 @ [ProwCreate (prowNamespace m) u])"
    if nae: "\<not> IsAlreadyExists e"
  proof -
    have "createAndAwaitURL ?m1 ?ns t PJ job w1 =
            Inl (Some (Api e), job, w1 @ [ProwCreate (prowNamespace m) (ObjectToUnstructured PJ)])"
      using nae by (simp add: createAndAwaitURL_def createFailure_def Let_def)
    then have "launchJob ?m1 job w =
            (Some (Api e), job, w1 @ [ProwCreate (prowNamespace m) (ObjectToUnstructured PJ)])"
      using s1 by (simp add: launchJob_def launchStages_def)
    then show ?thesis by blast
  qed
  from exists other show ?thesis by blast
qed

theorem create_already_exists_witness:
  "launchJob (example_manager\<lparr>prowClient_Create := \<lambda>w ns u. Some (AlreadyExists ''exists'')\<rparr>)
     example_job [] =
   launchJob (example_manager\<lparr>prowClient_Create := \<lambda>w ns u. None\<rparr>) example_job [] \<and>
   fst (launchJob (example_manager\<lparr>prowClient_Create := \<lambda>w ns u. Some (Failure ''refused'')\<rparr>)
     example_job []) = Some (Api (Failure ''refused''))"
proof -
  have c: "Credentials example_job = [] \<or> PasswordSnippet example_job = []"
    by (simp add: example_job_def)
  have "\<exists>pj. JobForConfig example_manager [] (JobName example_job) = (Inr pj, [LoadConfig]) \<and>
          findTargetName (spec_PodSpec (pj_Spec pj)) = Inr ''test''"
    by (simp add: JobForConfig_def findTargetName_def HasPrefix_def TrimPrefix_def example_defs)
  then obtain pj where
    j: "JobForConfig example_manager [] (JobName example_job) = (Inr pj, [LoadConfig])" and
    t: "findTargetName (spec_PodSpec (pj_Spec pj)) = Inr ''test''"
    by blast
  show ?thesis
    using create_already_exists [OF c j t, of "AlreadyExists ''exists''"]
      create_already_exists [OF c j t, of "Failure ''refused''"]
    by auto
qed

lemma stampJob_ns:
  "map_of (Annotations (pj_ObjectMeta (stampJob m job ns pj))) ''ci-chat-bot.openshift.io/ns''
     = Some ns"
  by (simp add: stampJob_def Let_def update_conv')

text \<open>
  C4, as the source has it. For the example request (name "launch-abc123", mode "launch",
  install image "registry/img:latest", no upgrade image) whose template resolves and names
  a target, the resource that \<open>launchJob\<close> submits right after loading the
  configuration records the derived namespace, which is "ci-ln-" followed by the hash of
  "launch-abc123", and that hash has 7 symbols. In every container of the submitted
  resource every variable named \<open>RELEASE_IMAGE_LATEST\<close> has the value
  "registry/img:latest" and every variable named \<open>NAMESPACE\<close> has the derived
  namespace.
\<close>

theorem example_request_submission:
  assumes "Name job = ''launch-abc123''" and "Mode job = ''launch''"
    and "InstallImage job = ''registry/img:latest''" and "UpgradeImage job = []"
    and "Credentials job = [] \<or> PasswordSnippet job = []"
    and "JobForConfig m w (JobName job) = (Inr pj, w1)"
    and "findTargetName (spec_PodSpec (pj_Spec pj)) = Inr t"
  shows "\<exists>pj' ps' rest.
      snd (snd (launchJob m job w)) = w1 @ [ProwCreate (prowNamespace m) (Content pj')] @ rest \<and>
      spec_PodSpec (pj_Spec pj') = Some ps' \<and>
      length (namespaceSafeHash [''launch-abc123'']) = 7 \<and>
      map_of (Annotations (pj_ObjectMeta pj')) ''ci-chat-bot.openshift.io/ns'' =
        Some (''ci-ln-'' @ namespaceSafeHash [''launch-abc123'']) \<and>
      (\<forall>c \<in> set (Containers ps'). \<forall>e \<in> set (c_Env c).
         (env_Name e = ''RELEASE_IMAGE_LATEST'' \<longrightarrow> env_Value e = ''registry/img:latest'') \<and>
         (env_Name e = ''NAMESPACE'' \<longrightarrow>
            env_Value e = ''ci-ln-'' @ namespaceSafeHash [''launch-abc123'']))"
proof -
  let ?ns = "''ci-ln-'' @ namespaceSafeHash [''launch-abc123'']"
  obtain ps where ps: "spec_PodSpec (pj_Spec pj) = Some ps"
    using findTargetName_PodSpec [OF assms(7)] by blast
  define ps' where
    "ps' = ps\<lparr>Containers :=
             map (overrideContainer ''registry/img:latest'' [] ?ns) (Containers ps)\<rparr>"
  define pj' where
    "pj' = (stampJob m job ?ns pj)\<lparr>pj_Spec := (pj_Spec pj)\<lparr>spec_PodSpec := Some ps'\<rparr>\<rparr>"
  have s: "submitJob m job w = createAndAwaitURL m ?ns t pj' job w1"
    using submitJob_submits [OF assms(5) assms(6) assms(7) ps]
    by (simp add: assms(1) assms(3) assms(4) pj'_def ps'_def)
  have "prefix (w1 @ [ProwCreate (prowNamespace m) (ObjectToUnstructured pj')])
          (submit_trace (submitJob m job w))"
    unfolding s by (rule createAndAwaitURL_prefix)
  then have "prefix (w1 @ [ProwCreate (prowNamespace m) (ObjectToUnstructured pj')])
          (snd (snd (launchJob m job w)))"
    using launchJob_after_submit [of m job w] by (rule prefix_order.trans)
  then obtain rest where
    "snd (snd (launchJob m job w)) =
       (w1 @ [ProwCreate (prowNamespace m) (ObjectToUnstructured pj')]) @ rest"
    unfolding prefix_def by blast
  then have tr: "snd (snd (launchJob m job w)) =
       w1 @ [ProwCreate (prowNamespace m) (Content pj')] @ rest"
    by (simp add: ObjectToUnstructured_def)
  have sp: "spec_PodSpec (pj_Spec pj') = Some ps'" by (simp add: pj'_def)
  have an: "map_of (Annotations (pj_ObjectMeta pj')) ''ci-chat-bot.openshift.io/ns'' = Some ?ns"
    using stampJob_ns [of m job ?ns pj] by (simp add: pj'_def)
  have env: "\<forall>c \<in> set (Containers ps'). \<forall>e \<in> set (c_Env c).
         (env_Name e = ''RELEASE_IMAGE_LATEST'' \<longrightarrow> env_Value e = ''registry/img:latest'') \<and>
         (env_Name e = ''NAMESPACE'' \<longrightarrow> env_Value e = ?ns)"
    by (auto simp: ps'_def overrideContainer_def overrideEnvVar_def)
  from tr sp an env hash_length [of "[''launch-abc123'']"] show ?thesis by blast
qed

theorem example_request_submission_witness:
  "\<exists>pj' rest.
     snd (snd (launchJob example_manager example_job [])) =
       [LoadConfig] @ [ProwCreate ''ci'' (Content pj')] @ rest \<and>
     map_of (Annotations (pj_ObjectMeta pj')) ''ci-chat-bot.openshift.io/ns'' =
       Some (''ci-ln-'' @ namespaceSafeHash [''launch-abc123''])"
proof -
  have a: "Name example_job = ''launch-abc123''" "Mode example_job = ''launch''"
    "InstallImage example_job = ''registry/img:latest''" "UpgradeImage example_job = []"
    "Credentials example_job = [] \<or> PasswordSnippet example_job = []"
    by (simp_all add: example_job_def)
  have "\<exists>pj. JobForConfig example_manager [] (JobName example_job) = (Inr pj, [LoadConfig]) \<and>
          findTargetName (spec_PodSpec (pj_Spec pj)) = Inr ''test''"
    by (simp add: JobForConfig_def findTargetName_def HasPrefix_def TrimPrefix_def example_defs)
  then obtain pj where
    j: "JobForConfig example_manager [] (JobName example_job) = (Inr pj, [LoadConfig])" and
    t: "findTargetName (spec_PodSpec (pj_Spec pj)) = Inr ''test''"
    by blast
  have n: "prowNamespace example_manager = ''ci''" by (simp add: example_manager_def)
  show ?thesis
    using example_request_submission [OF a j t] unfolding n by blast
qed

text \<open>
  C4, as the specification words it, fails on the length of the hash: the namespace of
  the example request has 13 characters, 6 for "ci-ln-" and 7 for the hash, not 8.
\<close>

theorem example_hash_length:
  "length (''ci-ln-'' @ namespaceSafeHash [Name example_job]) = 13 \<and>
   length (namespaceSafeHash [''launch-abc123'']) \<noteq> 8"
  using hash_length [of "[''launch-abc123'']"] by (simp add: example_job_def)

end
